theory Spec2Isabelle
  imports Complex_Main "HOL-Library.Sublist" "HOL-Library.Option_ord" "HOL-Library.List_Lexorder"
    "HOL-Library.Log_Nat"
begin

section \<open>Python values shared by the modules\<close>

text \<open>
  A Python \<open>str\<close> is a sequence of Unicode code points; it is modelled as a list of
  natural numbers, so that slicing and \<open>len\<close> count what Python counts.  \<open>ascii\<close>
  turns an Isabelle literal into such a string.
\<close>

type_synonym pystr = "nat list"

definition ascii :: "string \<Rightarrow> pystr" where
  "ascii s = map of_char s"

text \<open>Truthiness of an \<open>Optional[str]\<close>: \<open>None\<close> and the empty string are false.\<close>

fun truthy :: "pystr option \<Rightarrow> bool" where
  "truthy None = False"
| "truthy (Some s) = (s \<noteq> [])"

text \<open>
  \<open>str.lower()\<close> on the code points below 128.  No code point outside that range
  lower-cases to one of the ASCII letters of the needles searched for below, so a
  substring test for an ASCII needle in \<open>s.lower()\<close> is decided by this function.
\<close>

definition lower_cp :: "nat \<Rightarrow> nat" where
  "lower_cp c = (if 65 \<le> c \<and> c \<le> 90 then c + 32 else c)"

definition py_lower :: "pystr \<Rightarrow> pystr" where
  "py_lower s = map lower_cp s"

text \<open>\<open>str.strip()\<close>: the code points for which \<open>str.isspace\<close> holds are removed from
  both ends.\<close>

definition is_space :: "nat \<Rightarrow> bool" where
  "is_space c = ((9 \<le> c \<and> c \<le> 13) \<or> (28 \<le> c \<and> c \<le> 32) \<or> c = 0x85 \<or> c = 0xA0 \<or>
                 c = 0x1680 \<or> (0x2000 \<le> c \<and> c \<le> 0x200A) \<or> c = 0x2028 \<or> c = 0x2029 \<or>
                 c = 0x202F \<or> c = 0x205F \<or> c = 0x3000)"

definition py_strip :: "pystr \<Rightarrow> pystr" where
  "py_strip s = rev (dropWhile is_space (rev (dropWhile is_space s)))"

text \<open>\<open>needle in s\<close> for strings.\<close>

fun py_in :: "pystr \<Rightarrow> pystr \<Rightarrow> bool" where
  "py_in needle [] = (needle = [])"
| "py_in needle (c # cs) = (prefix needle (c # cs) \<or> py_in needle cs)"

text \<open>\<open>str(n)\<close> for an integer: decimal digits, with a sign for negative numbers.\<close>

fun str_nat :: "nat \<Rightarrow> pystr" where
  "str_nat n = (if n < 10 then [48 + n] else str_nat (n div 10) @ [48 + n mod 10])"

declare str_nat.simps [simp del]

definition str_int :: "int \<Rightarrow> pystr" where
  "str_int i = (if i < 0 then 45 # str_nat (nat (- i)) else str_nat (nat i))"

text \<open>
  \<open>s.replace(old, new)\<close>: every non-overlapping occurrence, left to right.  With an
  empty \<open>old\<close> Python puts \<open>new\<close> before every character and at the end.
\<close>

function py_replace :: "pystr \<Rightarrow> pystr \<Rightarrow> pystr \<Rightarrow> pystr" where
  "py_replace old new s =
     (if old = [] then new @ concat (map (\<lambda>c. c # new) s)
      else if s = [] then []
      else if prefix old s then new @ py_replace old new (drop (length old) s)
      else hd s # py_replace old new (tl s))"
  by pat_completeness auto
termination
  by (relation "measure (\<lambda>(old, new, s). length s)") (auto simp: neq_Nil_conv)

declare py_replace.simps [simp del]

section \<open>scraper/models.py: ScraperRecipe\<close>

text \<open>
  The dataclass, field by field.  \<open>drupal_auto_detected\<close> stands for the attribute
  \<open>_drupal_auto_detected\<close>, which \<open>__post_init__\<close> sets on the instance; it is absent
  (False) on an object that \<open>__init__\<close> has just filled in.
\<close>

record ScraperRecipe =
  domain :: pystr
  start_url :: "pystr option"
  list_selector :: pystr
  title_selector :: pystr
  link_selector :: pystr
  date_selector :: "pystr option"
  load_strategy :: pystr
  wait_until :: pystr
  wait_ms :: int
  next_page_selector :: "pystr option"
  max_pages :: int
  infinite_scroll :: "bool option"
  scroll_times :: int
  scroll_wait_ms :: int
  pagination_mode :: pystr
  load_more_selector :: "pystr option"
  page_pattern :: "pystr option"
  drupal_zero_based :: bool
  title_exclude_small :: bool
  title_exclude_time :: bool
  title_exclude_span :: bool
  exclude_current_page :: bool
  use_proxy :: bool
  rotate_ua :: bool
  accept_cookies :: bool
  drupal_auto_detected :: bool

text \<open>The field defaults of the dataclass.\<close>

definition default_recipe :: ScraperRecipe where
  "default_recipe = \<lparr>
     domain = [], start_url = None, list_selector = [], title_selector = [],
     link_selector = [], date_selector = None, load_strategy = ascii ''static'',
     wait_until = ascii ''domcontentloaded'', wait_ms = 0, next_page_selector = None,
     max_pages = 1, infinite_scroll = Some False, scroll_times = 0, scroll_wait_ms = 800,
     pagination_mode = ascii ''none'', load_more_selector = None, page_pattern = None,
     drupal_zero_based = False, title_exclude_small = False, title_exclude_time = False,
     title_exclude_span = False, exclude_current_page = False, use_proxy = False,
     rotate_ua = False, accept_cookies = False, drupal_auto_detected = False \<rparr>"

datatype config_error =
    NeedPagePattern
  | NeedNextPageSelector
  | NeedLoadMoreSelector

datatype py_error =
    ValueError config_error
  | TypeError_unhashable
  | TypeError_naive_aware
  | ValueError_url
  | TypeError_multiply
  | AttributeError_get
  | UnboundLocalError

text \<open>
  The first block of \<open>__post_init__\<close>: Drupal auto-detection.  \<open>dict_str\<close> is the
  value of \<open>str(self.__dict__)\<close>, Python's rendering of the field dictionary, which the
  model takes as given.
\<close>

definition drupal_detect :: "pystr \<Rightarrow> ScraperRecipe \<Rightarrow> ScraperRecipe" where
  "drupal_detect dict_str r =
     (if truthy (page_pattern r) \<and>
         (py_in (ascii ''drupal'') (py_lower (domain r)) \<or>
          py_in (ascii ''data-options'') (py_lower dict_str) \<or>
          pagination_mode r = ascii ''number'')
      then (if \<not> drupal_auto_detected r
            then r\<lparr>drupal_zero_based := True, drupal_auto_detected := True\<rparr>
            else r)
      else r)"

text \<open>The clamps at the end of \<open>__post_init__\<close>.\<close>

definition adjust_limits :: "ScraperRecipe \<Rightarrow> ScraperRecipe" where
  "adjust_limits r =
     (let r1 = (if max_pages r \<le> 0 then r\<lparr>max_pages := 1\<rparr> else r)
      in if wait_ms r1 < 0 then r1\<lparr>wait_ms := 0\<rparr> else r1)"

definition post_init :: "pystr \<Rightarrow> ScraperRecipe \<Rightarrow> py_error + ScraperRecipe" where
  "post_init dict_str r0 =
     (let r = drupal_detect dict_str r0 in
      if pagination_mode r = ascii ''number'' \<and> \<not> truthy (page_pattern r)
        then Inl (ValueError NeedPagePattern)
      else if pagination_mode r = ascii ''next'' \<and> \<not> truthy (next_page_selector r)
        then Inl (ValueError NeedNextPageSelector)
      else if pagination_mode r = ascii ''loadmore'' \<and> \<not> truthy (load_more_selector r)
        then Inl (ValueError NeedLoadMoreSelector)
      else Inr (adjust_limits r))"

text \<open>
  Construction: the generated \<open>__init__\<close> stores the arguments, the instance has no
  \<open>_drupal_auto_detected\<close> attribute yet, and \<open>__post_init__\<close> runs.
\<close>

definition construct :: "pystr \<Rightarrow> ScraperRecipe \<Rightarrow> py_error + ScraperRecipe" where
  "construct dict_str args = post_init dict_str (args\<lparr>drupal_auto_detected := False\<rparr>)"

section \<open>scraper/scraper_main.py: the next page\<close>

text \<open>
  What \<open>_get_next_page_url\<close> asks of the parsed page and of \<open>urllib\<close>: the elements
  matching a selector (\<open>None\<close> when the call raises), the first match, the repository's
  test for a current-page element, an element's \<open>href\<close>, and \<open>_normalize_url\<close>
  (\<open>None\<close> when \<open>urljoin\<close> raises).
\<close>

record 'e page_env =
  select_all :: "pystr \<Rightarrow> 'e list option"
  select_one :: "pystr \<Rightarrow> 'e option option"
  is_current_page_element :: "'e \<Rightarrow> bool"
  get_href :: "'e \<Rightarrow> pystr option"
  normalize_url :: "pystr \<Rightarrow> pystr \<Rightarrow> pystr option"

definition next_by_selector :: "'e page_env \<Rightarrow> ScraperRecipe \<Rightarrow> pystr \<Rightarrow> pystr option" where
  "next_by_selector env r current_url =
     (case select_all env (the (next_page_selector r)) of
        None \<Rightarrow> None
      | Some els \<Rightarrow>
          (let next_elements =
                 (if exclude_current_page r
                  then filter (\<lambda>el. \<not> is_current_page_element env el) els else els)
           in case next_elements of
                [] \<Rightarrow> None
              | el # _ \<Rightarrow>
                  (if truthy (get_href env el)
                   then (case normalize_url env current_url (the (get_href env el)) of
                           None \<Rightarrow> None
                         | Some next_url \<Rightarrow>
                             if next_url \<noteq> current_url then Some next_url else None)
                   else None)))"

definition next_compat :: "'e page_env \<Rightarrow> ScraperRecipe \<Rightarrow> pystr \<Rightarrow> pystr option" where
  "next_compat env r current_url =
     (if truthy (next_page_selector r)
      then (case select_one env (the (next_page_selector r)) of
              Some (Some nxt) \<Rightarrow>
                (if truthy (get_href env nxt)
                 then (case normalize_url env current_url (the (get_href env nxt)) of
                         None \<Rightarrow> None
                       | Some next_url \<Rightarrow>
                           if next_url \<noteq> current_url then Some next_url else None)
                 else None)
            | _ \<Rightarrow> None)
      else None)"

definition get_next_page_url ::
    "'e page_env \<Rightarrow> ScraperRecipe \<Rightarrow> pystr \<Rightarrow> int \<Rightarrow> pystr option" where
  "get_next_page_url env r current_url page_num =
     (if page_num \<ge> (if max_pages r \<noteq> 0 then max_pages r else 1) - 1 then None
      else if pagination_mode r = ascii ''number'' \<and> truthy (page_pattern r) then
        (let next_page_param = (if drupal_zero_based r then page_num + 1 else page_num + 2)
         in Some (py_replace (ascii ''{n}'') (str_int next_page_param) (the (page_pattern r))))
      else if pagination_mode r = ascii ''loadmore'' then None
      else if pagination_mode r = ascii ''next'' \<and> truthy (next_page_selector r) then
        next_by_selector env r current_url
      else if pagination_mode r = [] \<or> pagination_mode r = ascii ''none'' then
        next_compat env r current_url
      else None)"

text \<open>A page on which no selector matches anything.\<close>

definition no_page :: "unit page_env" where
  "no_page = \<lparr> select_all = (\<lambda>_. Some []), select_one = (\<lambda>_. Some None),
                is_current_page_element = (\<lambda>_. False), get_href = (\<lambda>_. None),
                normalize_url = (\<lambda>_ href. Some href) \<rparr>"

section \<open>services/ai_service.py: validating and using the model's reply\<close>

text \<open>
  A parsed JSON value, as \<open>json.loads\<close> returns it.  An object is an association list
  in insertion order; \<open>'f\<close> is the type of floating-point numbers, about which nothing is
  assumed.
\<close>

datatype 'f json =
    JNull
  | JBool bool
  | JInt int
  | JFloat 'f
  | JStr pystr
  | JList "'f json list"
  | JDict "(pystr \<times> 'f json) list"

type_synonym 'f pydict = "(pystr \<times> 'f json) list"

text \<open>\<open>d[k] = v\<close>: the value is replaced where the key stands, a new key goes last.\<close>

fun dict_set :: "'f pydict \<Rightarrow> pystr \<Rightarrow> 'f json \<Rightarrow> 'f pydict" where
  "dict_set [] k v = [(k, v)]"
| "dict_set ((k', v') # d) k v = (if k' = k then (k, v) # d else (k', v') # dict_set d k v)"

text \<open>Lists and dicts are the JSON values Python cannot hash.\<close>

fun hashable :: "'f json \<Rightarrow> bool" where
  "hashable (JList _) = False"
| "hashable (JDict _) = False"
| "hashable _ = True"

text \<open>The keys of the reply and of the score details, by code point.\<close>

definition k_topic :: pystr where "k_topic = [0x8BAE, 0x9898]"
definition k_category :: pystr where "k_category = [0x7C7B, 0x522B]"
definition k_summary :: pystr where "k_summary = [0x6458, 0x8981]"
definition k_new_title :: pystr where "k_new_title = [0x65B0, 0x6807, 0x9898]"
definition k_scores :: pystr where "k_scores = [0x8BC4, 0x5206, 0x8BE6, 0x60C5]"
definition k_strategic :: pystr where "k_strategic = [0x6218, 0x7565, 0x76F8, 0x5173, 0x6027]"
definition k_industry :: pystr where "k_industry = [0x884C, 0x4E1A, 0x5F71, 0x54CD, 0x529B]"
definition k_timeliness :: pystr where
  "k_timeliness = [0x65F6, 0x6548, 0x6027, 0x7D27, 0x8FEB, 0x6027]"
definition k_business :: pystr where
  "k_business = [0x4E1A, 0x52A1, 0x673A, 0x4F1A, 0x98CE, 0x9669, 0x5F3A, 0x5EA6]"
definition k_actionability :: pystr where "k_actionability = [0x53EF, 0x64CD, 0x4F5C, 0x6027]"
definition k_score :: pystr where "k_score = [0x5206, 0x6570]"
definition k_reason :: pystr where "k_reason = [0x7406, 0x7531]"

definition required_keys :: "pystr list" where
  "required_keys = [k_topic, k_category, k_summary, k_new_title, k_scores]"

definition required_score_keys :: "pystr list" where
  "required_score_keys = [k_strategic, k_industry, k_timeliness, k_business, k_actionability]"

text \<open>\<open>MockConfig\<close>: the official topics, and the keys of the official categories.\<close>

definition OFFICIAL_TOPICS :: "pystr list" where
  "OFFICIAL_TOPICS =
     [[0x5065, 0x5EB7, 0x4E0E, 0x5B89, 0x5168],
      [0x6E05, 0x6D01, 0x6280, 0x672F, 0x673A, 0x9047],
      [0x7EFF, 0x8272, 0x5EFA, 0x7B51],
      [0x5E94, 0x5BF9, 0x6C14, 0x5019, 0x53D8, 0x5316],
      [0x751F, 0x7269, 0x591A, 0x6837, 0x6027],
      [0x5176, 0x4ED6]]"

definition OFFICIAL_CATEGORIES :: "pystr list" where
  "OFFICIAL_CATEGORIES =
     [[0x653F, 0x7B56, 0x52A8, 0x6001],
      [0x524D, 0x6CBF, 0x8D44, 0x8BAF],
      [0x5FC5, 0x8BFB, 0x62A5, 0x544A]]"

text \<open>
  \<open>x in xs\<close> for a list of strings compares with \<open>==\<close>: only a JSON string can equal
  one.  \<open>x in d\<close> for a dict hashes \<open>x\<close> first and raises \<open>TypeError\<close> when it cannot.
\<close>

fun in_str_list :: "'f json \<Rightarrow> pystr list \<Rightarrow> bool" where
  "in_str_list (JStr s) xs = (s \<in> set xs)"
| "in_str_list _ xs = False"

definition in_str_keys :: "'f json \<Rightarrow> pystr list \<Rightarrow> py_error + bool" where
  "in_str_keys x ks = (if hashable x then Inr (in_str_list x ks) else Inl TypeError_unhashable)"

text \<open>The loop over the five score keys of \<open>_validate_analysis_result\<close>.\<close>

fun check_score_keys :: "'f pydict \<Rightarrow> pystr list \<Rightarrow> bool" where
  "check_score_keys sd [] = True"
| "check_score_keys sd (k # ks) =
     (case map_of sd k of
        None \<Rightarrow> False
      | Some (JDict item) \<Rightarrow> (if map_of item k_score = None then False else check_score_keys sd ks)
      | Some _ \<Rightarrow> False)"

definition validate_analysis_result :: "'f pydict \<Rightarrow> py_error + bool" where
  "validate_analysis_result result =
     (if result = [] then Inr False
      else if \<not> list_all (\<lambda>k. map_of result k \<noteq> None) required_keys then Inr False
      else if \<not> in_str_list (the (map_of result k_topic)) OFFICIAL_TOPICS then Inr False
      else (case in_str_keys (the (map_of result k_category)) OFFICIAL_CATEGORIES of
              Inl e \<Rightarrow> Inl e
            | Inr False \<Rightarrow> Inr False
            | Inr True \<Rightarrow>
                (case map_of result k_scores of
                   Some (JDict score_details) \<Rightarrow>
                     (if score_details = [] then Inr False
                      else Inr (check_score_keys score_details required_score_keys))
                 | _ \<Rightarrow> Inr False)))"

text \<open>\<open>DateExtractionResult\<close>, and what \<open>analyze_article_with_deepseek\<close> holds when the
  reply arrives: the article's title, the content and where it came from, the fetch error,
  the date extraction result and today's date.\<close>

record 'f date_extraction =
  de_success :: bool
  de_date :: "pystr option"
  de_confidence :: 'f
  de_method :: pystr

record 'f analysis_ctx =
  article_title :: pystr
  content_source :: pystr
  content :: pystr
  fetch_error_message :: "pystr option"
  date_result :: "'f date_extraction option"
  current_date :: pystr

fun json_of_opt :: "pystr option \<Rightarrow> 'f json" where
  "json_of_opt None = JNull"
| "json_of_opt (Some s) = JStr s"

definition msg_default_score :: pystr where
  "msg_default_score = [0x9ED8, 0x8BA4, 0x8BC4, 0x5206]"
definition msg_validation_failed :: pystr where
  "msg_validation_failed = [65, 73, 0x5206, 0x6790, 0x7ED3, 0x679C, 0x9A8C, 0x8BC1, 0x5931, 0x8D25]"
definition msg_api_failed :: pystr where
  "msg_api_failed = [65, 80, 73, 0x8C03, 0x7528, 0x5931, 0x8D25]"
definition msg_analysis_failed :: pystr where
  "msg_analysis_failed = [0x5206, 0x6790, 0x5931, 0x8D25, 58, 32]"

text \<open>The score details of the two default results: every score 0.\<close>

definition zero_scores :: "pystr \<Rightarrow> pystr \<Rightarrow> 'f json" where
  "zero_scores first_reason reason = JDict
     [(k_strategic, JDict [(k_score, JInt 0), (k_reason, JStr first_reason)]),
      (k_industry, JDict [(k_score, JInt 0), (k_reason, JStr reason)]),
      (k_timeliness, JDict [(k_score, JInt 0), (k_reason, JStr reason)]),
      (k_business, JDict [(k_score, JInt 0), (k_reason, JStr reason)]),
      (k_actionability, JDict [(k_score, JInt 0), (k_reason, JStr reason)])]"

text \<open>The metadata attached to a reply that passed validation.\<close>

definition success_meta :: "'f analysis_ctx \<Rightarrow> 'f pydict" where
  "success_meta ctx =
     [(ascii ''content_source'', JStr (content_source ctx)),
      (ascii ''content_length'', JInt (int (length (content ctx)))),
      (ascii ''fetch_error'',
         if truthy (fetch_error_message ctx) then json_of_opt (fetch_error_message ctx) else JNull),
      (ascii ''analysis_date'', JStr (current_date ctx))]
     @ (case date_result ctx of
          None \<Rightarrow> []
        | Some d \<Rightarrow>
            [(ascii ''date_extracted'', JBool (de_success d)),
             (ascii ''extracted_date'', if de_success d then json_of_opt (de_date d) else JNull),
             (ascii ''date_extraction_method'', if de_success d then JStr (de_method d) else JNull),
             (ascii ''date_confidence'', if de_success d then JFloat (de_confidence d) else JNull)])"

text \<open>The result returned when validation says no.\<close>

definition validation_default :: "'f analysis_ctx \<Rightarrow> 'f pydict" where
  "validation_default ctx =
     [(k_topic, JStr (hd OFFICIAL_TOPICS)),
      (k_category, JStr (hd OFFICIAL_CATEGORIES)),
      (k_summary, JStr (article_title ctx)),
      (k_new_title, JStr (take 50 (article_title ctx))),
      (k_scores, zero_scores msg_default_score msg_default_score),
      (ascii ''_meta'', JDict
         [(ascii ''content_source'', JStr (content_source ctx)),
          (ascii ''content_length'', JInt (int (length (content ctx)))),
          (ascii ''fetch_error'', JStr msg_validation_failed),
          (ascii ''analysis_date'', JStr (current_date ctx)),
          (ascii ''date_extracted'',
             JBool (case date_result ctx of None \<Rightarrow> False | Some d \<Rightarrow> de_success d)),
          (ascii ''extracted_date'',
             (case date_result ctx of
                None \<Rightarrow> JNull
              | Some d \<Rightarrow> if de_success d then json_of_opt (de_date d) else JNull))])]"

text \<open>The result returned by the \<open>except Exception\<close> handler; \<open>str_e\<close> is \<open>str(e)\<close>.\<close>

definition failure_default :: "'f analysis_ctx \<Rightarrow> pystr \<Rightarrow> 'f pydict" where
  "failure_default ctx str_e =
     [(k_topic, JStr (hd OFFICIAL_TOPICS)),
      (k_category, JStr (hd OFFICIAL_CATEGORIES)),
      (k_summary, JStr (msg_analysis_failed @ article_title ctx)),
      (k_new_title, JStr (take 50 (article_title ctx))),
      (k_scores, zero_scores (msg_api_failed @ [58, 32] @ take 50 str_e) msg_api_failed),
      (ascii ''_meta'', JDict
         [(ascii ''content_source'', JStr (content_source ctx)),
          (ascii ''content_length'', JInt (int (length (content ctx)))),
          (ascii ''fetch_error'', JStr (msg_api_failed @ [58, 32] @ str_e)),
          (ascii ''analysis_date'', JStr (current_date ctx)),
          (ascii ''date_extracted'', JBool False),
          (ascii ''extracted_date'', JNull)])]"

text \<open>
  An exception inside the \<open>try\<close> block is either one the API call or the parsing of its
  reply raised (\<open>'x\<close>) or one raised by the repository's own code.
\<close>

datatype 'x raised = ApiError 'x | Raised py_error

text \<open>
  The \<open>try\<close> block from the API call on.  \<open>reply\<close> is what the call and
  \<open>_parse_ai_output\<close> give: an exception, or the parsed object.
\<close>

definition try_block :: "'f analysis_ctx \<Rightarrow> 'x + 'f pydict \<Rightarrow> 'x raised + 'f pydict" where
  "try_block ctx reply =
     (case reply of
        Inl x \<Rightarrow> Inl (ApiError x)
      | Inr analysis_results \<Rightarrow>
          (case validate_analysis_result analysis_results of
             Inl e \<Rightarrow> Inl (Raised e)
           | Inr True \<Rightarrow> Inr (dict_set analysis_results (ascii ''_meta'') (JDict (success_meta ctx)))
           | Inr False \<Rightarrow> Inr (validation_default ctx)))"

definition analyze_article_with_deepseek ::
    "('x raised \<Rightarrow> pystr) \<Rightarrow> 'f analysis_ctx \<Rightarrow> 'x + 'f pydict \<Rightarrow> 'f pydict" where
  "analyze_article_with_deepseek str_exc ctx reply =
     (case try_block ctx reply of
        Inr result \<Rightarrow> result
      | Inl e \<Rightarrow> failure_default ctx (str_exc e))"

text \<open>Reading a result: the score of a dimension, a field of \<open>_meta\<close>.\<close>

definition score_of :: "'f pydict \<Rightarrow> pystr \<Rightarrow> 'f json option" where
  "score_of result key =
     (case map_of result k_scores of
        Some (JDict sd) \<Rightarrow>
          (case map_of sd key of Some (JDict item) \<Rightarrow> map_of item k_score | _ \<Rightarrow> None)
      | _ \<Rightarrow> None)"

definition meta_field :: "'f pydict \<Rightarrow> pystr \<Rightarrow> 'f json option" where
  "meta_field result f =
     (case map_of result (ascii ''_meta'') of Some (JDict m) \<Rightarrow> map_of m f | _ \<Rightarrow> None)"

text \<open>A context and a rendering of exceptions to run the function on.\<close>

definition sample_ctx :: "unit analysis_ctx" where
  "sample_ctx = \<lparr> article_title = ascii ''Title'', content_source = ascii ''cached'',
                   content = ascii ''Body'', fetch_error_message = None, date_result = None,
                   current_date = ascii ''2024-01-01'' \<rparr>"

definition sample_str_exc :: "unit raised \<Rightarrow> pystr" where
  "sample_str_exc e = (case e of ApiError _ \<Rightarrow> ascii ''timeout''
                               | Raised _ \<Rightarrow> ascii ''unhashable type'')"

section \<open>api/endpoints/intelligence.py: storing crawled items\<close>

text \<open>
  A \<open>datetime\<close> is naive (a wall-clock reading) or aware (an instant with an offset);
  both are counted in microseconds.  Python refuses to order a naive against an aware
  value.
\<close>

datatype pydatetime = Naive int | Aware int

fun dt_less :: "pydatetime \<Rightarrow> pydatetime \<Rightarrow> py_error + bool" where
  "dt_less (Naive a) (Naive b) = Inr (a < b)"
| "dt_less (Aware a) (Aware b) = Inr (a < b)"
| "dt_less _ _ = Inl TypeError_naive_aware"

definition day_us :: int where
  "day_us = 86400000000"

text \<open>\<open>dt - timedelta(days=n)\<close>.\<close>

fun minus_days :: "pydatetime \<Rightarrow> int \<Rightarrow> pydatetime" where
  "minus_days (Naive a) n = Naive (a - n * day_us)"
| "minus_days (Aware a) n = Aware (a - n * day_us)"

text \<open>\<open>ScrapedItem\<close>, and the rows of the two tables as the crawl writes them.  Times are
  stored as text (\<open>isoformat()\<close>); \<open>'t\<close> is the stored form.\<close>

record scraped_item =
  item_title :: pystr
  item_url :: pystr
  item_date :: "pystr option"

record 't intelligence_row =
  i_id :: int
  i_title :: pystr
  i_summary :: "pystr option"
  i_topic :: "pystr option"
  i_news_time :: "'t option"
  i_collect_time :: 't
  i_update_time :: 't
  i_quality_status :: pystr
  i_ai_score :: rat
  i_score_dimensions :: "pystr option"
  i_is_merged :: bool
  i_merged_count :: int

record 't source_row =
  s_intelligence_id :: int
  s_url :: pystr
  s_title :: "pystr option"
  s_domain :: pystr
  s_fetch_time :: 't

text \<open>The database session and the four counters of the loop over the items.\<close>

record 't crawl_state =
  intelligence :: "'t intelligence_row list"
  intelligence_sources :: "'t source_row list"
  saved_count :: nat
  updated_count :: nat
  duplicate_count :: nat
  out_of_range_count :: nat

text \<open>
  What the loop asks of \<open>dateutil\<close> and \<open>datetime\<close>: \<open>parser.parse\<close>, strict and
  fuzzy (\<open>None\<close> when it raises), and \<open>isoformat\<close>.
\<close>

record 't crawl_env =
  parse_date :: "pystr \<Rightarrow> pydatetime option"
  parse_date_fuzzy :: "pystr \<Rightarrow> pydatetime option"
  isoformat :: "pydatetime \<Rightarrow> 't"

text \<open>The date of an item: strict parsing first, then fuzzy; any failure gives \<open>None\<close>.\<close>

definition item_news_time :: "'t crawl_env \<Rightarrow> scraped_item \<Rightarrow> pydatetime option" where
  "item_news_time env item =
     (if truthy (item_date item) \<and> py_strip (the (item_date item)) \<noteq> []
      then (case parse_date env (py_strip (the (item_date item))) of
              Some d \<Rightarrow> Some d
            | None \<Rightarrow> parse_date_fuzzy env (py_strip (the (item_date item))))
      else None)"

text \<open>\<open>SELECT id, news_time FROM intelligence WHERE title = :title LIMIT 1\<close>.\<close>

definition select_by_title :: "'t intelligence_row list \<Rightarrow> pystr \<Rightarrow> 't intelligence_row option" where
  "select_by_title rows t = find (\<lambda>r. i_title r = t) rows"

text \<open>The \<open>UPDATE ... WHERE id = :id\<close> of the merge branch.\<close>

definition update_news_time ::
    "'t intelligence_row list \<Rightarrow> int \<Rightarrow> 't \<Rightarrow> 't \<Rightarrow> pystr \<Rightarrow> 't intelligence_row list" where
  "update_news_time rows ident nt ut topic_name =
     map (\<lambda>r. if i_id r = ident
               then r\<lparr>i_news_time := Some nt, i_update_time := ut, i_topic := Some topic_name\<rparr>
               else r) rows"

text \<open>\<open>SELECT COUNT(*) FROM intelligence_sources WHERE intelligence_id = :id AND url = :url\<close>.\<close>

definition count_sources :: "'t source_row list \<Rightarrow> int \<Rightarrow> pystr \<Rightarrow> nat" where
  "count_sources srcs ident url =
     length (filter (\<lambda>s. s_intelligence_id s = ident \<and> s_url s = url) srcs)"

text \<open>The row id SQLite gives to an inserted row: one more than the largest in use.\<close>

definition lastrowid :: "'t intelligence_row list \<Rightarrow> int" where
  "lastrowid rows = (if rows = [] then 1 else Max (set (map i_id rows)) + 1)"

definition new_source_row :: "int \<Rightarrow> scraped_item \<Rightarrow> pystr \<Rightarrow> 't \<Rightarrow> 't source_row" where
  "new_source_row ident item source_domain ft =
     \<lparr> s_intelligence_id = ident, s_url = item_url item, s_title = Some (item_title item),
       s_domain = source_domain, s_fetch_time = ft \<rparr>"

definition new_intelligence_row ::
    "int \<Rightarrow> scraped_item \<Rightarrow> pystr \<Rightarrow> 't option \<Rightarrow> 't \<Rightarrow> 't intelligence_row" where
  "new_intelligence_row ident item topic_name nt ct =
     \<lparr> i_id = ident, i_title = item_title item, i_summary = Some [], i_topic = Some topic_name,
       i_news_time = nt, i_collect_time = ct, i_update_time = ct,
       i_quality_status = ascii ''pending'', i_ai_score = 0, i_score_dimensions = Some (ascii ''{}''),
       i_is_merged = False, i_merged_count = 0 \<rparr>"

text \<open>
  The loop body from the duplicate check on: merge into the row of the same title, count
  a duplicate, or insert a new pair of rows.
\<close>

definition store_item ::
    "'t crawl_env \<Rightarrow> pystr \<Rightarrow> pystr \<Rightarrow> pydatetime \<Rightarrow> pydatetime option \<Rightarrow> scraped_item
       \<Rightarrow> 't crawl_state \<Rightarrow> 't crawl_state" where
  "store_item env topic_name source_domain current_time news_time item st =
     (case select_by_title (intelligence st) (item_title item) of
        Some existing \<Rightarrow>
          (if i_news_time existing = None \<and> news_time \<noteq> None
           then
             (let st1 = st\<lparr>intelligence :=
                           update_news_time (intelligence st) (i_id existing)
                             (isoformat env (the news_time)) (isoformat env current_time) topic_name\<rparr>;
                  st2 = (if count_sources (intelligence_sources st1) (i_id existing) (item_url item) = 0
                         then st1\<lparr>intelligence_sources := intelligence_sources st1 @
                                   [new_source_row (i_id existing) item source_domain
                                      (isoformat env current_time)]\<rparr>
                         else st1)
              in st2\<lparr>updated_count := updated_count st2 + 1\<rparr>)
           else st\<lparr>duplicate_count := duplicate_count st + 1\<rparr>)
      | None \<Rightarrow>
          (let ident = lastrowid (intelligence st) in
           st\<lparr>intelligence := intelligence st @
                  [new_intelligence_row ident item topic_name (map_option (isoformat env) news_time)
                     (isoformat env current_time)],
              intelligence_sources := intelligence_sources st @
                  [new_source_row ident item source_domain (isoformat env current_time)],
              saved_count := saved_count st + 1\<rparr>))"

text \<open>
  The body of the loop inside its \<open>try\<close>: the date, the range check with its seven
  days of grace, then the duplicate check.  The comparison is the one place that can raise.
\<close>

definition item_body ::
    "'t crawl_env \<Rightarrow> pystr \<Rightarrow> pystr \<Rightarrow> pydatetime \<Rightarrow> pydatetime \<Rightarrow> scraped_item
       \<Rightarrow> 't crawl_state \<Rightarrow> py_error + 't crawl_state" where
  "item_body env topic_name source_domain start_date current_time item st =
     (case item_news_time env item of
        None \<Rightarrow> Inr (store_item env topic_name source_domain current_time None item st)
      | Some nt \<Rightarrow>
          (case dt_less nt (minus_days start_date 7) of
             Inl e \<Rightarrow> Inl e
           | Inr True \<Rightarrow> Inr (st\<lparr>out_of_range_count := out_of_range_count st + 1\<rparr>)
           | Inr False \<Rightarrow>
               Inr (store_item env topic_name source_domain current_time (Some nt) item st)))"

text \<open>\<open>except Exception: ... continue\<close>: an item whose body raises is passed over.\<close>

definition process_item ::
    "'t crawl_env \<Rightarrow> pystr \<Rightarrow> pystr \<Rightarrow> pydatetime \<Rightarrow> pydatetime \<Rightarrow> scraped_item
       \<Rightarrow> 't crawl_state \<Rightarrow> 't crawl_state" where
  "process_item env topic_name source_domain start_date current_time item st =
     (case item_body env topic_name source_domain start_date current_time item st of
        Inl e \<Rightarrow> st
      | Inr st' \<Rightarrow> st')"

text \<open>\<open>start_date = end_date - timedelta(days=days_back)\<close>, with \<open>end_date\<close> the naive
  \<open>datetime.now()\<close>.\<close>

definition crawl_start_date :: "int \<Rightarrow> int \<Rightarrow> pydatetime" where
  "crawl_start_date now days_back = minus_days (Naive now) days_back"

text \<open>A parser that knows two dates, a stored form that is the datetime itself, one row
  without a date and one item, to run the loop body on.\<close>

definition sample_parse :: "pystr \<Rightarrow> pydatetime option" where
  "sample_parse s = (if s = ascii ''old'' then Some (Naive 0)
                     else if s = ascii ''recent'' then Some (Naive (94 * day_us))
                     else if s = ascii ''edge'' then Some (Naive (87 * day_us))
                     else None)"

definition sample_no_parse :: "pystr \<Rightarrow> pydatetime option" where
  "sample_no_parse s = None"

definition sample_iso :: "pydatetime \<Rightarrow> pydatetime" where
  "sample_iso d = d"

definition sample_env :: "pydatetime crawl_env" where
  "sample_env = \<lparr> parse_date = sample_parse, parse_date_fuzzy = sample_no_parse,
                   isoformat = sample_iso \<rparr>"

definition sample_row :: "pydatetime intelligence_row" where
  "sample_row = \<lparr> i_id = 1, i_title = ascii ''News'', i_summary = Some [], i_topic = Some (ascii ''T0''),
       i_news_time = None, i_collect_time = Naive 0, i_update_time = Naive 0,
       i_quality_status = ascii ''pending'', i_ai_score = 0, i_score_dimensions = Some (ascii ''{}''),
       i_is_merged = False, i_merged_count = 0 \<rparr>"

definition sample_state :: "pydatetime crawl_state" where
  "sample_state = \<lparr> intelligence = [sample_row], intelligence_sources = [],
                     saved_count = 0, updated_count = 0, duplicate_count = 0,
                     out_of_range_count = 0 \<rparr>"

definition sample_item :: "pystr \<Rightarrow> pystr \<Rightarrow> scraped_item" where
  "sample_item t d = \<lparr> item_title = t, item_url = ascii ''https://x.com/a'', item_date = Some d \<rparr>"

section \<open>crud/crud_operations.py: the domain of a source\<close>

text \<open>
  \<open>urllib.parse.urlsplit\<close> and \<open>urlparse\<close> as CPython 3.11 and 3.12 have them, on strings of
  code points below 128 (for others \<open>_checknetloc\<close> normalises the host, which is
  not modelled).  \<open>valid_bracketed\<close> stands for \<open>_check_bracketed_host\<close>: whether
  the text between square brackets is an address the library accepts.
\<close>

record parse_result =
  scheme :: pystr
  netloc :: pystr
  path :: pystr
  query :: pystr
  fragment :: pystr

text \<open>\<open>url.lstrip(_WHATWG_C0_CONTROL_OR_SPACE)\<close>, then the removal of tab, CR and LF.\<close>

definition lstrip_c0 :: "pystr \<Rightarrow> pystr" where
  "lstrip_c0 url = dropWhile (\<lambda>c. c \<le> 32) url"

definition remove_unsafe :: "pystr \<Rightarrow> pystr" where
  "remove_unsafe url = filter (\<lambda>c. c \<noteq> 9 \<and> c \<noteq> 10 \<and> c \<noteq> 13) url"

definition is_ascii_alpha :: "nat \<Rightarrow> bool" where
  "is_ascii_alpha c = ((65 \<le> c \<and> c \<le> 90) \<or> (97 \<le> c \<and> c \<le> 122))"

text \<open>\<open>scheme_chars\<close>: letters, digits, plus, minus and dot.\<close>

definition scheme_char :: "nat \<Rightarrow> bool" where
  "scheme_char c = (is_ascii_alpha c \<or> (48 \<le> c \<and> c \<le> 57) \<or> c = 43 \<or> c = 45 \<or> c = 46)"

text \<open>The text before the first colon is the scheme when it starts with a letter and
  holds scheme characters only.\<close>

definition split_scheme :: "pystr \<Rightarrow> pystr \<times> pystr" where
  "split_scheme url =
     (let candidate = takeWhile (\<lambda>c. c \<noteq> 58) url in
      if 58 \<in> set url \<and> candidate \<noteq> [] \<and> is_ascii_alpha (hd url) \<and> list_all scheme_char candidate
      then (py_lower candidate, tl (dropWhile (\<lambda>c. c \<noteq> 58) url))
      else ([], url))"

text \<open>\<open>_splitnetloc(url, 2)\<close>: the host part ends at the first slash, question mark or
  hash.\<close>

definition is_delim :: "nat \<Rightarrow> bool" where
  "is_delim c = (c = 47 \<or> c = 63 \<or> c = 35)"

definition splitnetloc :: "pystr \<Rightarrow> pystr \<times> pystr" where
  "splitnetloc url =
     (takeWhile (\<lambda>c. \<not> is_delim c) (drop 2 url), dropWhile (\<lambda>c. \<not> is_delim c) (drop 2 url))"

text \<open>\<open>s.split(c, 1)\<close> when \<open>c\<close> occurs in \<open>s\<close>, and \<open>s.partition(c)\<close>'s first and
  last part.\<close>

definition before_char :: "nat \<Rightarrow> pystr \<Rightarrow> pystr" where
  "before_char c s = takeWhile (\<lambda>x. x \<noteq> c) s"

definition after_char :: "nat \<Rightarrow> pystr \<Rightarrow> pystr" where
  "after_char c s = tl (dropWhile (\<lambda>x. x \<noteq> c) s)"

definition urlsplit :: "(pystr \<Rightarrow> bool) \<Rightarrow> pystr \<Rightarrow> py_error + parse_result" where
  "urlsplit valid_bracketed url0 =
     (let url1 = remove_unsafe (lstrip_c0 url0);
          (sch, url2) = split_scheme url1;
          (nl, url3) = (if take 2 url2 = ascii ''//'' then splitnetloc url2 else ([], url2))
      in if (91 \<in> set nl \<and> 93 \<notin> set nl) \<or> (93 \<in> set nl \<and> 91 \<notin> set nl)
           then Inl ValueError_url
         else if 91 \<in> set nl \<and> 93 \<in> set nl \<and>
                 \<not> valid_bracketed (before_char 93 (after_char 91 nl))
           then Inl ValueError_url
         else
           (let (url4, frag) = (if 35 \<in> set url3 then (before_char 35 url3, after_char 35 url3)
                                else (url3, []));
                (url5, qry) = (if 63 \<in> set url4 then (before_char 63 url4, after_char 63 url4)
                               else (url4, []))
            in Inr \<lparr> scheme = sch, netloc = nl, path = url5, query = qry, fragment = frag \<rparr>))"

definition uses_params :: "pystr list" where
  "uses_params =
     [[], ascii ''ftp'', ascii ''hdl'', ascii ''prospero'', ascii ''http'', ascii ''imap'',
      ascii ''https'', ascii ''shttp'', ascii ''rtsp'', ascii ''rtsps'', ascii ''rtspu'',
      ascii ''sip'',
      ascii ''sips'', ascii ''mms'', ascii ''sftp'', ascii ''tel'']"

text \<open>\<open>_splitparams\<close>, the path it returns: cut at the first semicolon of the last
  segment.\<close>

definition splitparams_path :: "pystr \<Rightarrow> pystr" where
  "splitparams_path url =
     (if 47 \<in> set url
      then (let k = length url - length (takeWhile (\<lambda>c. c \<noteq> 47) (rev url)) - 1;
                last_seg = drop k url
            in if 59 \<in> set last_seg then take k url @ before_char 59 last_seg else url)
      else before_char 59 url)"

definition urlparse :: "(pystr \<Rightarrow> bool) \<Rightarrow> pystr \<Rightarrow> py_error + parse_result" where
  "urlparse valid_bracketed url =
     (case urlsplit valid_bracketed url of
        Inl e \<Rightarrow> Inl e
      | Inr r \<Rightarrow>
          if scheme r \<in> set uses_params \<and> 59 \<in> set (path r)
          then Inr (r\<lparr>path := splitparams_path (path r)\<rparr>)
          else Inr r)"

text \<open>\<open>_parse_domain\<close>.\<close>

definition parse_domain :: "(pystr \<Rightarrow> bool) \<Rightarrow> pystr \<Rightarrow> py_error + pystr" where
  "parse_domain valid_bracketed raw0 =
     (let raw = py_strip raw0 in
      if raw = [] then Inr []
      else
        (case urlparse valid_bracketed
                (if py_in (ascii ''://'') raw then raw else ascii ''https://'' @ raw) of
           Inl e \<Rightarrow> Inl e
         | Inr p \<Rightarrow>
             (let host = (if netloc p \<noteq> [] then netloc p else path p);
                  host1 = before_char 47 host;
                  host2 = (if prefix (ascii ''www.'') host1 then drop 4 host1 else host1)
              in Inr (py_lower host2))))"

text \<open>A code point that is none of tab, LF, CR, hash and question mark: what
  \<open>urlsplit\<close> leaves in the host part and in the path.\<close>

definition clean :: "nat \<Rightarrow> bool" where
  "clean x = (x \<noteq> 9 \<and> x \<noteq> 10 \<and> x \<noteq> 13 \<and> x \<noteq> 35 \<and> x \<noteq> 63)"

text \<open>A library that accepts no bracketed host.\<close>

definition reject_bracketed :: "pystr \<Rightarrow> bool" where
  "reject_bracketed s = False"

section \<open>ORDER BY, LIMIT and OFFSET\<close>

text \<open>
  The rows an \<open>ORDER BY\<close> returns are modelled as an insertion sort under the
  comparison that the clause describes; rows the clause does not tell apart keep their
  table order.
\<close>

fun place :: "('a \<Rightarrow> 'a \<Rightarrow> bool) \<Rightarrow> 'a \<Rightarrow> 'a list \<Rightarrow> 'a list" where
  "place le x [] = [x]"
| "place le x (y # ys) = (if le x y then x # y # ys else y # place le x ys)"

definition order_by :: "('a \<Rightarrow> 'a \<Rightarrow> bool) \<Rightarrow> 'a list \<Rightarrow> 'a list" where
  "order_by le rows = foldr (place le) rows []"

text \<open>
  One term \<open>col ASC\<close> or \<open>col DESC\<close>.  A nullable column is an \<open>option\<close>, and
  \<open>None\<close> is below every value, as SQLite orders NULL; text is compared code point by
  code point.
\<close>

definition asc_desc :: "bool \<Rightarrow> ('a \<Rightarrow> 'k::linorder) \<Rightarrow> 'a \<Rightarrow> 'a \<Rightarrow> bool" where
  "asc_desc desc col a b = (if desc then col b \<le> col a else col a \<le> col b)"

text \<open>\<open>LIMIT :limit OFFSET :offset\<close>; SQLite reads a negative limit as no limit and a
  negative offset as 0.\<close>

definition limit_offset :: "int \<Rightarrow> int \<Rightarrow> 'a list \<Rightarrow> 'a list" where
  "limit_offset row_limit row_offset rows =
     (let rest = drop (nat row_offset) rows
      in if row_limit < 0 then rest else take (nat row_limit) rest)"

section \<open>api/endpoints/intelligence.py: the list operation\<close>

definition valid_sort_fields :: "pystr list" where
  "valid_sort_fields =
     [ascii ''id'', ascii ''title'', ascii ''topic'', ascii ''news_time'',
      ascii ''collect_time'', ascii ''ai_score'', ascii ''quality_status'']"

text \<open>\<open>ORDER BY news_time IS NULL, news_time ASC|DESC\<close>: first the flag, 0 before 1,
  then the time in the direction asked for.\<close>

definition news_time_order ::
    "bool \<Rightarrow> ('t::linorder) intelligence_row \<Rightarrow> 't intelligence_row \<Rightarrow> bool" where
  "news_time_order desc a b =
     (if (i_news_time a = None) \<noteq> (i_news_time b = None) then i_news_time b = None
      else asc_desc desc i_news_time a b)"

text \<open>The order clause for a sort field that passed the allow-list.\<close>

definition intelligence_order ::
    "pystr \<Rightarrow> bool \<Rightarrow> ('t::linorder) intelligence_row \<Rightarrow> 't intelligence_row \<Rightarrow> bool" where
  "intelligence_order sort_by desc =
     (if sort_by = ascii ''news_time'' then news_time_order desc
      else if sort_by = ascii ''id'' then asc_desc desc i_id
      else if sort_by = ascii ''title'' then asc_desc desc i_title
      else if sort_by = ascii ''topic'' then asc_desc desc i_topic
      else if sort_by = ascii ''collect_time'' then asc_desc desc i_collect_time
      else if sort_by = ascii ''ai_score'' then asc_desc desc i_ai_score
      else asc_desc desc i_quality_status)"

text \<open>
  \<open>get_intelligence_list\<close>, from the sort parameters to the items returned.
  \<open>where_clause\<close> is the conjunction of the filters built from the request;
  \<open>item_ok\<close> tells the rows whose item is built without an exception (the loop skips
  the others).
\<close>

definition get_intelligence_list ::
    "(('t::linorder) intelligence_row \<Rightarrow> bool) \<Rightarrow> ('t intelligence_row \<Rightarrow> bool) \<Rightarrow>
     pystr \<Rightarrow> pystr \<Rightarrow> int \<Rightarrow> int \<Rightarrow> 't intelligence_row list \<Rightarrow> 't intelligence_row list" where
  "get_intelligence_list where_clause item_ok sort_by order page page_size table =
     (let sort_by' = (if sort_by \<in> set valid_sort_fields then sort_by else ascii ''news_time'');
          desc = (py_lower order = ascii ''desc'');
          offset = (page - 1) * page_size;
          rows = limit_offset page_size offset
                   (order_by (intelligence_order sort_by' desc) (filter where_clause table))
      in filter item_ok rows)"

section \<open>crud/crud_operations.py and api/endpoints/sources.py: sorted sources\<close>

text \<open>A row of \<open>sources\<close> with the ids of the topics it is attached to.\<close>

record 't source =
  src_id :: int
  src_domain :: pystr
  src_recipe_json :: pystr
  src_created_at :: "'t option"
  src_updated_at :: "'t option"
  src_topic_ids :: "int list"

text \<open>
  \<open>getattr(Source, sort_by, Source.id)\<close>.  The class has its five columns and the
  relationship \<open>topics\<close>; \<open>class_has\<close> tells which other names it has (methods and
  the attributes the declarative base gives it).  A name it does not have gives the
  default, the id column.
\<close>

datatype source_attr =
    SrcId | SrcDomain | SrcRecipeJson | SrcCreatedAt | SrcUpdatedAt | SrcTopics | SrcOther

definition source_getattr :: "(pystr \<Rightarrow> bool) \<Rightarrow> pystr \<Rightarrow> source_attr" where
  "source_getattr class_has sort_by =
     (if sort_by = ascii ''id'' then SrcId
      else if sort_by = ascii ''domain'' then SrcDomain
      else if sort_by = ascii ''recipe_json'' then SrcRecipeJson
      else if sort_by = ascii ''created_at'' then SrcCreatedAt
      else if sort_by = ascii ''updated_at'' then SrcUpdatedAt
      else if sort_by = ascii ''topics'' then SrcTopics
      else if class_has sort_by then SrcOther
      else SrcId)"

text \<open>The order a column gives; an attribute that is no column gives none, and what the
  query does with it is outside this model.\<close>

fun source_order ::
    "source_attr \<Rightarrow> bool \<Rightarrow> (('t::linorder) source \<Rightarrow> 't source \<Rightarrow> bool) option" where
  "source_order SrcId desc = Some (asc_desc desc src_id)"
| "source_order SrcDomain desc = Some (asc_desc desc src_domain)"
| "source_order SrcRecipeJson desc = Some (asc_desc desc src_recipe_json)"
| "source_order SrcCreatedAt desc = Some (asc_desc desc src_created_at)"
| "source_order SrcUpdatedAt desc = Some (asc_desc desc src_updated_at)"
| "source_order SrcTopics desc = None"
| "source_order SrcOther desc = None"

text \<open>\<open>.unique()\<close>: a row that comes again (the same primary key) is dropped.\<close>

fun unique_by :: "('a \<Rightarrow> 'k) \<Rightarrow> 'a list \<Rightarrow> 'a list" where
  "unique_by f [] = []"
| "unique_by f (x # xs) = x # unique_by f (filter (\<lambda>y. f y \<noteq> f x) xs)"

text \<open>
  \<open>get_sources_with_filter_and_sort\<close>.  \<open>ilike pattern value\<close> is the database's
  case-insensitive LIKE.
\<close>

definition get_sources_with_filter_and_sort ::
    "(pystr \<Rightarrow> pystr \<Rightarrow> bool) \<Rightarrow> (pystr \<Rightarrow> bool) \<Rightarrow> pystr option \<Rightarrow> int option \<Rightarrow>
     pystr \<Rightarrow> pystr \<Rightarrow> ('t::linorder) source list \<Rightarrow> 't source list option" where
  "get_sources_with_filter_and_sort ilike class_has q topic_id sort_by order_by' table =
     (let rows1 = (if truthy q
                   then filter (\<lambda>s. ilike ([37] @ py_strip (the q) @ [37]) (src_domain s)) table
                   else table);
          rows2 = (if topic_id \<noteq> None \<and> topic_id \<noteq> Some 0
                   then filter (\<lambda>s. the topic_id \<in> set (src_topic_ids s)) rows1
                   else rows1)
      in case source_order (source_getattr class_has sort_by) (py_lower order_by' = ascii ''desc'') of
           None \<Rightarrow> None
         | Some le \<Rightarrow> Some (unique_by src_id (order_by le rows2)))"

text \<open>The route \<open>api_get_sources_table\<close>: both parameters are checked, then the query runs.\<close>

definition api_get_sources_table ::
    "(pystr \<Rightarrow> pystr \<Rightarrow> bool) \<Rightarrow> (pystr \<Rightarrow> bool) \<Rightarrow> pystr option \<Rightarrow> int option \<Rightarrow>
     pystr \<Rightarrow> pystr \<Rightarrow> ('t::linorder) source list \<Rightarrow> 't source list option" where
  "api_get_sources_table ilike class_has q topic_filter sort_param order_param table =
     (let sort' = (if sort_param \<in> set [ascii ''id'', ascii ''domain'', ascii ''created_at'',
                                         ascii ''updated_at''] then sort_param else ascii ''id'');
          order' = (if py_lower order_param \<in> set [ascii ''asc'', ascii ''desc''] then order_param
                    else ascii ''asc'')
      in get_sources_with_filter_and_sort ilike class_has q topic_filter sort' order' table)"

text \<open>Rows, a LIKE and a class dictionary to run the two queries on.\<close>

definition list_row :: "int \<Rightarrow> nat option \<Rightarrow> nat intelligence_row" where
  "list_row ident nt =
     \<lparr> i_id = ident, i_title = ascii ''News'', i_summary = None, i_topic = None,
       i_news_time = nt, i_collect_time = 0, i_update_time = 0,
       i_quality_status = ascii ''pending'', i_ai_score = 0, i_score_dimensions = None,
       i_is_merged = False, i_merged_count = 0 \<rparr>"

definition accept_row :: "nat intelligence_row \<Rightarrow> bool" where
  "accept_row r = True"

definition sample_source :: "int \<Rightarrow> pystr \<Rightarrow> pystr \<Rightarrow> nat source" where
  "sample_source ident dmn recipe =
     \<lparr> src_id = ident, src_domain = dmn, src_recipe_json = recipe, src_created_at = None,
       src_updated_at = None, src_topic_ids = [] \<rparr>"

definition sample_ilike :: "pystr \<Rightarrow> pystr \<Rightarrow> bool" where
  "sample_ilike pattern v = py_in (py_lower (butlast (tl pattern))) (py_lower v)"

definition sample_class_has :: "pystr \<Rightarrow> bool" where
  "sample_class_has name = (name \<in> set [ascii ''metadata'', ascii ''registry''])"


section \<open>api/endpoints/intelligence.py: the composite score\<close>

text \<open>
  A Python \<open>float\<close> is a binary64 number; a finite one is a rational, and the model
  computes with these.  \<open>to_double\<close> is the rounding every operation ends with: to the
  nearest number with a 53-bit significand, a tie going to the even significand, the
  exponent not below that of the subnormal numbers.  Overflow to infinity is outside the
  model.
\<close>

definition pow2 :: "int \<Rightarrow> rat" where
  "pow2 e = (if 0 \<le> e then 2 ^ nat e else 1 / 2 ^ nat (- e))"

definition round_half_even :: "rat \<Rightarrow> int" where
  "round_half_even y =
     (let f = \<lfloor>y\<rfloor>; d = y - of_int f
      in if d < 1 / 2 then f else if 1 / 2 < d then f + 1 else if even f then f else f + 1)"

text \<open>The exponent \<open>k\<close> with \<open>2 ^ k \<le> a < 2 ^ (k + 1)\<close>, for positive \<open>a\<close>.\<close>

definition binade :: "rat \<Rightarrow> int" where
  "binade a = (if 1 \<le> a then bitlen \<lfloor>a\<rfloor> - 1 else - bitlen (\<lceil>1 / a\<rceil> - 1))"

definition to_double :: "rat \<Rightarrow> rat" where
  "to_double x =
     (if x = 0 then 0
      else (let k = max (binade \<bar>x\<bar>) (- 1022); ulp = pow2 k / 2 ^ 52
            in of_int (round_half_even (x / ulp)) * ulp))"

text \<open>
  \<open>round(x, 1)\<close> for a float: the decimal with one digit that is nearest to the binary
  value, a tie going to the even digit, read back as a float.
\<close>

definition py_round1 :: "rat \<Rightarrow> rat" where
  "py_round1 x = to_double (of_int (round_half_even (x * 10)) / 10)"

text \<open>The running total is the integer 0 until the first product is added.\<close>

datatype pynum = PyInt int | PyFloat rat

fun py_add :: "pynum \<Rightarrow> rat \<Rightarrow> pynum" where
  "py_add (PyInt i) t = PyFloat (to_double (to_double (of_int i) + t))"
| "py_add (PyFloat a) t = PyFloat (to_double (a + t))"

text \<open>\<open>score_data["..."] * weight\<close>: numbers are multiplied as floats, \<open>True\<close> and
  \<open>False\<close> count as 1 and 0, anything else raises \<open>TypeError\<close>.\<close>

fun score_times_weight :: "rat json \<Rightarrow> rat \<Rightarrow> py_error + rat" where
  "score_times_weight (JInt n) w = Inr (to_double (to_double (of_int n) * w))"
| "score_times_weight (JFloat f) w = Inr (to_double (f * w))"
| "score_times_weight (JBool b) w = Inr (to_double ((if b then 1 else 0) * w))"
| "score_times_weight _ w = Inl TypeError_multiply"

text \<open>The weights, in the order of the dictionary; each literal is a float.\<close>

definition weights :: "(pystr \<times> rat) list" where
  "weights =
     [(k_strategic, to_double (30 / 100)), (k_industry, to_double (20 / 100)),
      (k_timeliness, to_double (20 / 100)), (k_business, to_double (15 / 100)),
      (k_actionability, to_double (15 / 100))]"

text \<open>The loop over the weights.\<close>

fun add_scores :: "rat pydict \<Rightarrow> (pystr \<times> rat) list \<Rightarrow> pynum \<Rightarrow> py_error + pynum" where
  "add_scores scores [] total_score = Inr total_score"
| "add_scores scores ((dimension, weight) # ws) total_score =
     (case map_of scores dimension of
        Some (JDict score_data) \<Rightarrow>
          (case map_of score_data k_score of
             None \<Rightarrow> add_scores scores ws total_score
           | Some v \<Rightarrow>
               (case score_times_weight v weight of
                  Inl e \<Rightarrow> Inl e
                | Inr t \<Rightarrow> add_scores scores ws (py_add total_score t)))
      | _ \<Rightarrow> add_scores scores ws total_score)"

text \<open>\<open>round(total_score, 1)\<close>, as the number bound to \<open>:ai_score\<close>.\<close>

fun rounded_total :: "pynum \<Rightarrow> rat" where
  "rounded_total (PyInt i) = of_int i"
| "rounded_total (PyFloat x) = py_round1 x"

text \<open>
  From the analysis to the value of \<open>ai_score\<close>, the same lines in both functions:
  \<open>scores = analysis.get(..., {})\<close>, the loop, the rounding.
\<close>

definition composite_score :: "rat pydict \<Rightarrow> py_error + rat" where
  "composite_score analysis =
     (case (case map_of analysis k_scores of
              None \<Rightarrow> Inr []
            | Some (JDict scores) \<Rightarrow> Inr scores
            | Some _ \<Rightarrow> Inl AttributeError_get) of
        Inl e \<Rightarrow> Inl e
      | Inr scores \<Rightarrow>
          (case add_scores scores weights (PyInt 0) of
             Inl e \<Rightarrow> Inl e
           | Inr total_score \<Rightarrow> Inr (rounded_total total_score)))"


text \<open>
  \<open>ai_process_single_intelligence_with_date_extraction\<close>: the dictionary of the update
  is built with \<open>round(total_score, 1)\<close> and then \<open>json.dumps\<close>; but \<open>import json\<close>
  stands further down in the same function, so the name is a local one without a value
  here and the call raises.  The handler rolls back.
\<close>

definition ai_process_single_intelligence_with_date_extraction ::
    "rat pydict \<Rightarrow> py_error + rat" where
  "ai_process_single_intelligence_with_date_extraction analysis =
     (case composite_score analysis of
        Inl e \<Rightarrow> Inl e
      | Inr ai_score \<Rightarrow> Inl UnboundLocalError)"

text \<open>An analysis that carries five integer scores.\<close>

definition score_entry :: "int \<Rightarrow> rat json" where
  "score_entry n = JDict [(k_score, JInt n), (k_reason, JStr [])]"

definition sample_analysis :: "int \<Rightarrow> int \<Rightarrow> int \<Rightarrow> int \<Rightarrow> int \<Rightarrow> rat pydict" where
  "sample_analysis s1 s2 s3 s4 s5 =
     [(k_topic, JStr (hd OFFICIAL_TOPICS)), (k_category, JStr (hd OFFICIAL_CATEGORIES)),
      (k_summary, JStr []), (k_new_title, JStr []),
      (k_scores, JDict [(k_strategic, score_entry s1), (k_industry, score_entry s2),
                        (k_timeliness, score_entry s3), (k_business, score_entry s4),
                        (k_actionability, score_entry s5)])]"



section \<open>Recipe construction\<close>

lemma adjust_limits_bounds:
  "1 \<le> max_pages (adjust_limits r) \<and> 0 \<le> wait_ms (adjust_limits r)"
  by (simp add: adjust_limits_def Let_def)

lemma adjust_limits_coerce:
  "(max_pages r \<le> 0 \<longrightarrow> max_pages (adjust_limits r) = 1) \<and>
   (wait_ms r < 0 \<longrightarrow> wait_ms (adjust_limits r) = 0)"
  by (simp add: adjust_limits_def Let_def)

lemma drupal_detect_fields:
  "pagination_mode (drupal_detect d r) = pagination_mode r"
  "page_pattern (drupal_detect d r) = page_pattern r"
  "next_page_selector (drupal_detect d r) = next_page_selector r"
  "load_more_selector (drupal_detect d r) = load_more_selector r"
  "max_pages (drupal_detect d r) = max_pages r"
  "wait_ms (drupal_detect d r) = wait_ms r"
  by (simp_all add: drupal_detect_def)

lemma ascii_modes_distinct:
  "ascii ''number'' \<noteq> ascii ''next''"
  "ascii ''number'' \<noteq> ascii ''loadmore''"
  "ascii ''next'' \<noteq> ascii ''loadmore''"
  "ascii ''next'' \<noteq> ascii ''number''"
  "ascii ''loadmore'' \<noteq> ascii ''number''"
  "ascii ''loadmore'' \<noteq> ascii ''next''"
  by (simp_all add: ascii_def)

text \<open>
  C8.  Constructing a recipe in number mode without a page pattern fails with the
  configuration error, and with a (non-empty) page pattern it succeeds; next mode without
  a next-page selector and loadmore mode without a load-more selector fail; every recipe
  that construction returns has \<open>max_pages \<ge> 1\<close> and \<open>wait_ms \<ge> 0\<close>, a non-positive
  \<open>max_pages\<close> having become 1 and a negative \<open>wait_ms\<close> 0.
\<close>

theorem C8_construction_validation:
  "(pagination_mode a = ascii ''number'' \<and> \<not> truthy (page_pattern a)
      \<longrightarrow> construct d a = Inl (ValueError NeedPagePattern)) \<and>
   (pagination_mode a = ascii ''number'' \<and> truthy (page_pattern a)
      \<longrightarrow> (\<exists>r. construct d a = Inr r)) \<and>
   (pagination_mode a = ascii ''next'' \<and> \<not> truthy (next_page_selector a)
      \<longrightarrow> construct d a = Inl (ValueError NeedNextPageSelector)) \<and>
   (pagination_mode a = ascii ''loadmore'' \<and> \<not> truthy (load_more_selector a)
      \<longrightarrow> construct d a = Inl (ValueError NeedLoadMoreSelector)) \<and>
   (\<forall>r. construct d a = Inr r \<longrightarrow>
      1 \<le> max_pages r \<and> 0 \<le> wait_ms r \<and>
      (max_pages a \<le> 0 \<longrightarrow> max_pages r = 1) \<and> (wait_ms a < 0 \<longrightarrow> wait_ms r = 0))"
proof -
  let ?a = "a\<lparr>drupal_auto_detected := False\<rparr>"
  have f: "pagination_mode (drupal_detect d ?a) = pagination_mode a"
          "page_pattern (drupal_detect d ?a) = page_pattern a"
          "next_page_selector (drupal_detect d ?a) = next_page_selector a"
          "load_more_selector (drupal_detect d ?a) = load_more_selector a"
          "max_pages (drupal_detect d ?a) = max_pages a"
          "wait_ms (drupal_detect d ?a) = wait_ms a"
    by (simp_all add: drupal_detect_fields)
  have 1: "pagination_mode a = ascii ''number'' \<and> \<not> truthy (page_pattern a)
      \<longrightarrow> construct d a = Inl (ValueError NeedPagePattern)"
    by (simp add: construct_def post_init_def Let_def f)
  have 2: "pagination_mode a = ascii ''number'' \<and> truthy (page_pattern a)
      \<longrightarrow> (\<exists>r. construct d a = Inr r)"
    by (simp add: construct_def post_init_def Let_def f ascii_modes_distinct)
  have 3: "pagination_mode a = ascii ''next'' \<and> \<not> truthy (next_page_selector a)
      \<longrightarrow> construct d a = Inl (ValueError NeedNextPageSelector)"
    by (simp add: construct_def post_init_def Let_def f ascii_modes_distinct)
  have 4: "pagination_mode a = ascii ''loadmore'' \<and> \<not> truthy (load_more_selector a)
      \<longrightarrow> construct d a = Inl (ValueError NeedLoadMoreSelector)"
    by (simp add: construct_def post_init_def Let_def f ascii_modes_distinct)
  have 5: "\<forall>r. construct d a = Inr r \<longrightarrow>
      1 \<le> max_pages r \<and> 0 \<le> wait_ms r \<and>
      (max_pages a \<le> 0 \<longrightarrow> max_pages r = 1) \<and> (wait_ms a < 0 \<longrightarrow> wait_ms r = 0)"
  proof (intro allI impI)
    fix r assume c: "construct d a = Inr r"
    then have r: "r = adjust_limits (drupal_detect d ?a)"
      by (simp add: construct_def post_init_def Let_def split: if_splits)
    show "1 \<le> max_pages r \<and> 0 \<le> wait_ms r \<and>
      (max_pages a \<le> 0 \<longrightarrow> max_pages r = 1) \<and> (wait_ms a < 0 \<longrightarrow> wait_ms r = 0)"
      using adjust_limits_bounds [of "drupal_detect d ?a"]
            adjust_limits_coerce [of "drupal_detect d ?a"]
      by (simp add: r f)
  qed
  from 1 2 3 4 5 show ?thesis by blast
qed

theorem C8_construction_validation_witness:
  "construct [] (default_recipe\<lparr>pagination_mode := ascii ''number''\<rparr>)
     = Inl (ValueError NeedPagePattern) \<and>
   (\<exists>r. construct [] (default_recipe\<lparr>pagination_mode := ascii ''number'',
            page_pattern := Some (ascii ''https://x.com/news?page={n}''),
            max_pages := 0, wait_ms := - 5\<rparr>) = Inr r \<and> max_pages r = 1 \<and> wait_ms r = 0) \<and>
   construct [] (default_recipe\<lparr>pagination_mode := ascii ''next''\<rparr>)
     = Inl (ValueError NeedNextPageSelector) \<and>
   construct [] (default_recipe\<lparr>pagination_mode := ascii ''loadmore''\<rparr>)
     = Inl (ValueError NeedLoadMoreSelector)"
proof -
  let ?ok = "default_recipe\<lparr>pagination_mode := ascii ''number'',
            page_pattern := Some (ascii ''https://x.com/news?page={n}''),
            max_pages := 0, wait_ms := - 5\<rparr>"
  have h1: "pagination_mode (default_recipe\<lparr>pagination_mode := ascii ''number''\<rparr>)
              = ascii ''number'' \<and>
            \<not> truthy (page_pattern (default_recipe\<lparr>pagination_mode := ascii ''number''\<rparr>))"
    by (simp add: default_recipe_def)
  have h2: "pagination_mode ?ok = ascii ''number'' \<and> truthy (page_pattern ?ok)"
    by (simp add: ascii_def)
  have h2': "max_pages ?ok \<le> 0 \<and> wait_ms ?ok < 0"
    by simp
  have h3: "pagination_mode (default_recipe\<lparr>pagination_mode := ascii ''next''\<rparr>)
              = ascii ''next'' \<and>
            \<not> truthy (next_page_selector (default_recipe\<lparr>pagination_mode := ascii ''next''\<rparr>))"
    by (simp add: default_recipe_def)
  have h4: "pagination_mode (default_recipe\<lparr>pagination_mode := ascii ''loadmore''\<rparr>)
              = ascii ''loadmore'' \<and>
            \<not> truthy (load_more_selector (default_recipe\<lparr>pagination_mode := ascii ''loadmore''\<rparr>))"
    by (simp add: default_recipe_def)
  from h1 C8_construction_validation
         [of "default_recipe\<lparr>pagination_mode := ascii ''number''\<rparr>" "[]"]
  have c1: "construct [] (default_recipe\<lparr>pagination_mode := ascii ''number''\<rparr>)
              = Inl (ValueError NeedPagePattern)"
    by blast
  from h2 C8_construction_validation [of ?ok "[]"]
  obtain r where r: "construct [] ?ok = Inr r"
    by blast
  with h2' C8_construction_validation [of ?ok "[]"]
  have "max_pages r = 1 \<and> wait_ms r = 0"
    by blast
  with r have c2: "\<exists>r. construct [] ?ok = Inr r \<and> max_pages r = 1 \<and> wait_ms r = 0"
    by blast
  from h3 C8_construction_validation
         [of "default_recipe\<lparr>pagination_mode := ascii ''next''\<rparr>" "[]"]
  have c3: "construct [] (default_recipe\<lparr>pagination_mode := ascii ''next''\<rparr>)
              = Inl (ValueError NeedNextPageSelector)"
    by blast
  from h4 C8_construction_validation
         [of "default_recipe\<lparr>pagination_mode := ascii ''loadmore''\<rparr>" "[]"]
  have c4: "construct [] (default_recipe\<lparr>pagination_mode := ascii ''loadmore''\<rparr>)
              = Inl (ValueError NeedLoadMoreSelector)"
    by blast
  from c1 c2 c3 c4 show ?thesis by blast
qed

text \<open>
  C10.  A recipe constructed in number mode with a non-empty page pattern has
  \<open>drupal_zero_based\<close> set, whatever value was passed in; and since number mode without
  a page pattern is refused, no constructed number-mode recipe has the flag unset.  The
  flag is set in the same way whenever a page pattern is given and the domain contains
  \<open>drupal\<close>.
\<close>

theorem C10_number_mode_forces_zero_based:
  "(pagination_mode a = ascii ''number'' \<and> truthy (page_pattern a)
      \<longrightarrow> (\<exists>r. construct d a = Inr r \<and> drupal_zero_based r)) \<and>
   (\<forall>r. construct d a = Inr r \<and> pagination_mode r = ascii ''number''
      \<longrightarrow> drupal_zero_based r) \<and>
   (\<forall>r. construct d a = Inr r \<and> truthy (page_pattern a) \<and>
        py_in (ascii ''drupal'') (py_lower (domain a))
      \<longrightarrow> drupal_zero_based r)"
proof -
  let ?a = "a\<lparr>drupal_auto_detected := False\<rparr>"
  have adj: "\<And>r. drupal_zero_based (adjust_limits r) = drupal_zero_based r"
            "\<And>r. pagination_mode (adjust_limits r) = pagination_mode r"
    by (simp_all add: adjust_limits_def Let_def)
  have det: "pagination_mode a = ascii ''number'' \<Longrightarrow> truthy (page_pattern a)
               \<Longrightarrow> drupal_zero_based (drupal_detect d ?a)"
    by (simp add: drupal_detect_def)
  have 1: "pagination_mode a = ascii ''number'' \<and> truthy (page_pattern a)
      \<longrightarrow> (\<exists>r. construct d a = Inr r \<and> drupal_zero_based r)"
    using det
    by (simp add: construct_def post_init_def Let_def drupal_detect_fields
                  ascii_modes_distinct adj)
  have 2: "\<forall>r. construct d a = Inr r \<and> pagination_mode r = ascii ''number''
      \<longrightarrow> drupal_zero_based r"
  proof (intro allI impI, elim conjE)
    fix r assume c: "construct d a = Inr r" and m: "pagination_mode r = ascii ''number''"
    from c have r: "r = adjust_limits (drupal_detect d ?a)"
      by (simp add: construct_def post_init_def Let_def split: if_splits)
    with m have m': "pagination_mode a = ascii ''number''"
      by (simp add: adj drupal_detect_fields)
    with c have "truthy (page_pattern a)"
      by (simp add: construct_def post_init_def Let_def drupal_detect_fields
               split: if_splits)
    with m' det show "drupal_zero_based r"
      by (simp add: r adj)
  qed
  have 3: "\<forall>r. construct d a = Inr r \<and> truthy (page_pattern a) \<and>
        py_in (ascii ''drupal'') (py_lower (domain a))
      \<longrightarrow> drupal_zero_based r"
  proof (intro allI impI, elim conjE)
    fix r assume c: "construct d a = Inr r" and t: "truthy (page_pattern a)"
      and dr: "py_in (ascii ''drupal'') (py_lower (domain a))"
    from c have r: "r = adjust_limits (drupal_detect d ?a)"
      by (simp add: construct_def post_init_def Let_def split: if_splits)
    from t dr have "drupal_zero_based (drupal_detect d ?a)"
      by (simp add: drupal_detect_def)
    then show "drupal_zero_based r"
      by (simp add: r adj)
  qed
  from 1 2 3 show ?thesis by blast
qed

theorem C10_number_mode_forces_zero_based_witness:
  "\<exists>r. construct [] (default_recipe\<lparr>pagination_mode := ascii ''number'',
          page_pattern := Some (ascii ''https://x.com/news?page={n}''),
          drupal_zero_based := False\<rparr>) = Inr r \<and>
       pagination_mode r = ascii ''number'' \<and> drupal_zero_based r"
proof -
  let ?a = "default_recipe\<lparr>pagination_mode := ascii ''number'',
          page_pattern := Some (ascii ''https://x.com/news?page={n}''),
          drupal_zero_based := False\<rparr>"
  have h: "pagination_mode ?a = ascii ''number'' \<and> truthy (page_pattern ?a)"
    by (simp add: ascii_def)
  with C10_number_mode_forces_zero_based [of ?a "[]"]
  obtain r where r: "construct [] ?a = Inr r" "drupal_zero_based r"
    by blast
  from r(1) have "pagination_mode r = ascii ''number''"
    by (auto simp: construct_def post_init_def Let_def drupal_detect_def adjust_limits_def
                   default_recipe_def
             split: if_splits)
  with r show ?thesis by blast
qed

section \<open>Numeric pagination\<close>

lemma replace_page_1:
  "py_replace (ascii ''{n}'') (str_int 1) (ascii ''https://x.com/news?page={n}'')
     = ascii ''https://x.com/news?page=1''"
  by (simp add: py_replace.simps str_int_def str_nat.simps ascii_def)

lemma replace_page_2:
  "py_replace (ascii ''{n}'') (str_int 2) (ascii ''https://x.com/news?page={n}'')
     = ascii ''https://x.com/news?page=2''"
  by (simp add: py_replace.simps str_int_def str_nat.simps ascii_def)

text \<open>
  What \<open>_get_next_page_url\<close> does with the recipe it is given: in number mode with the
  pattern \<open>https://x.com/news?page={n}\<close>, after page index 0 and below the page cap
  (\<open>max_pages\<close> at least 2), it substitutes 1 when the flag \<open>drupal_zero_based\<close> is
  set and 2 when it is not; at the cap there is no next page.
\<close>

lemma next_page_param_by_flag:
  assumes "pagination_mode r = ascii ''number''"
      and "page_pattern r = Some (ascii ''https://x.com/news?page={n}'')"
  shows "get_next_page_url env r url 0 =
           (if 2 \<le> max_pages r
            then Some (if drupal_zero_based r then ascii ''https://x.com/news?page=1''
                       else ascii ''https://x.com/news?page=2'')
            else None)"
proof -
  have t: "truthy (page_pattern r)"
    using assms(2) by (simp add: ascii_def)
  show ?thesis
    using assms t
    by (simp add: get_next_page_url_def Let_def replace_page_1 replace_page_2)
qed

text \<open>
  Through the constructor the second case does not arise: a number-mode recipe leaves
  construction with the flag set, so its next page after index 0 carries parameter 1
  whatever flag was passed, and the branch that adds 2 is never taken.
\<close>

lemma constructed_recipe_next_page:
  assumes "pagination_mode a = ascii ''number''"
      and "page_pattern a = Some (ascii ''https://x.com/news?page={n}'')"
      and "2 \<le> max_pages a"
      and "construct d a = Inr r"
  shows "get_next_page_url env r url 0 = Some (ascii ''https://x.com/news?page=1'')"
proof -
  let ?a = "a\<lparr>drupal_auto_detected := False\<rparr>"
  have t: "truthy (page_pattern a)"
    using assms(2) by (simp add: ascii_def)
  from assms(4) have r: "r = adjust_limits (drupal_detect d ?a)"
    by (simp add: construct_def post_init_def Let_def split: if_splits)
  have f: "pagination_mode r = ascii ''number''" "page_pattern r = page_pattern a"
          "max_pages r = max_pages a" "drupal_zero_based r"
    using assms(1,3) t
    by (simp_all add: r adjust_limits_def Let_def drupal_detect_def)
  show ?thesis
    using f t assms(2,3)
    by (simp add: get_next_page_url_def Let_def replace_page_1)
qed

text \<open>
  C2.  The recipe is constructed in number mode with the pattern
  \<open>https://x.com/news?page={n}\<close> and room for three pages, and the next page after
  index 0 is asked for.  Constructed with \<open>drupal_zero_based=True\<close> it gets parameter
  value 1.  Constructed with \<open>drupal_zero_based=False\<close> it should get parameter value 2,
  and \<open>_get_next_page_url\<close> has the branch for it; but \<open>__post_init__\<close> has set the
  flag, and the URL carries 1 again.
\<close>

theorem C2_constructed_false_gives_1:
  "(case construct d (default_recipe\<lparr>pagination_mode := ascii ''number'',
            page_pattern := Some (ascii ''https://x.com/news?page={n}''),
            max_pages := 3, drupal_zero_based := True\<rparr>) of
      Inl e \<Rightarrow> None
    | Inr r \<Rightarrow> get_next_page_url env r url 0) = Some (ascii ''https://x.com/news?page=1'') \<and>
   (case construct d (default_recipe\<lparr>pagination_mode := ascii ''number'',
            page_pattern := Some (ascii ''https://x.com/news?page={n}''),
            max_pages := 3, drupal_zero_based := False\<rparr>) of
      Inl e \<Rightarrow> None
    | Inr r \<Rightarrow> get_next_page_url env r url 0) = Some (ascii ''https://x.com/news?page=1'')"
proof -
  have t: "ascii ''https://x.com/news?page={n}'' \<noteq> []"
    by (simp add: ascii_def)
  show ?thesis
    by (simp add: construct_def post_init_def drupal_detect_def adjust_limits_def Let_def
                  default_recipe_def get_next_page_url_def ascii_modes_distinct t replace_page_1)
qed

section \<open>Invalid replies of the model\<close>


lemma validate_range:
  "validate_analysis_result r = Inr True \<or> validate_analysis_result r = Inr False \<or>
   validate_analysis_result r = Inl TypeError_unhashable"
  by (auto simp: validate_analysis_result_def in_str_keys_def
           split: sum.splits bool.splits option.splits json.splits)

lemma check_score_keys_all:
  "check_score_keys sd ks \<Longrightarrow> k \<in> set ks \<Longrightarrow> map_of sd k \<noteq> None"
  by (induction ks) (auto split: option.splits json.splits if_splits)

lemma validate_TrueD:
  assumes "validate_analysis_result r = Inr True"
  shows "\<forall>k\<in>set required_keys. map_of r k \<noteq> None"
    and "\<exists>t\<in>set OFFICIAL_TOPICS. map_of r k_topic = Some (JStr t)"
    and "\<exists>c\<in>set OFFICIAL_CATEGORIES. map_of r k_category = Some (JStr c)"
    and "\<exists>sd. map_of r k_scores = Some (JDict sd) \<and>
              (\<forall>k\<in>set required_score_keys. map_of sd k \<noteq> None)"
proof -
  from assms have req: "list_all (\<lambda>k. map_of r k \<noteq> None) required_keys"
    by (simp add: validate_analysis_result_def split: if_splits)
  then show 1: "\<forall>k\<in>set required_keys. map_of r k \<noteq> None"
    by (simp add: list_all_iff)
  from 1 obtain tv cv where tv: "map_of r k_topic = Some tv" and cv: "map_of r k_category = Some cv"
    by (auto simp: required_keys_def)
  from assms req tv have "in_str_list tv OFFICIAL_TOPICS"
    by (simp add: validate_analysis_result_def split: if_splits)
  then show "\<exists>t\<in>set OFFICIAL_TOPICS. map_of r k_topic = Some (JStr t)"
    using tv by (cases tv) auto
  from assms req cv have "in_str_keys cv OFFICIAL_CATEGORIES = Inr True"
    by (simp add: validate_analysis_result_def split: if_splits sum.splits bool.splits)
  then show "\<exists>c\<in>set OFFICIAL_CATEGORIES. map_of r k_category = Some (JStr c)"
    using cv by (cases cv) (auto simp: in_str_keys_def split: if_splits)
  from assms obtain sd where sd: "map_of r k_scores = Some (JDict sd)"
      and ck: "check_score_keys sd required_score_keys"
    by (auto simp: validate_analysis_result_def
             split: if_splits sum.splits bool.splits option.splits json.splits)
  with check_score_keys_all show "\<exists>sd. map_of r k_scores = Some (JDict sd) \<and>
              (\<forall>k\<in>set required_score_keys. map_of sd k \<noteq> None)"
    by blast
qed

lemma score_of_validation_default:
  "key \<in> set required_score_keys \<Longrightarrow> score_of (validation_default ctx) key = Some (JInt 0)"
  by (auto simp: score_of_def validation_default_def zero_scores_def required_score_keys_def
      k_topic_def k_category_def k_summary_def k_new_title_def k_scores_def k_strategic_def
      k_industry_def k_timeliness_def k_business_def k_actionability_def k_score_def k_reason_def)

lemma score_of_failure_default:
  "key \<in> set required_score_keys \<Longrightarrow> score_of (failure_default ctx e) key = Some (JInt 0)"
  by (auto simp: score_of_def failure_default_def zero_scores_def required_score_keys_def
      k_topic_def k_category_def k_summary_def k_new_title_def k_scores_def k_strategic_def
      k_industry_def k_timeliness_def k_business_def k_actionability_def k_score_def k_reason_def)

lemma meta_validation_default:
  "meta_field (validation_default ctx) (ascii ''fetch_error'') = Some (JStr msg_validation_failed)"
  by (simp add: meta_field_def validation_default_def ascii_def
      k_topic_def k_category_def k_summary_def k_new_title_def k_scores_def)

lemma meta_failure_default:
  "meta_field (failure_default ctx e) (ascii ''fetch_error'')
     = Some (JStr (msg_api_failed @ [58, 32] @ e))"
  by (simp add: meta_field_def failure_default_def ascii_def
      k_topic_def k_category_def k_summary_def k_new_title_def k_scores_def)

text \<open>
  C4.  A reply that lacks a required top-level key, or whose topic is not an official
  topic, or whose category is not an official category, or whose score details lack one
  of the five dimensions, is not accepted by validation: \<open>_validate_analysis_result\<close>
  returns False, or, when the category is a list or an object, its dictionary lookup
  raises \<open>TypeError\<close> inside the \<open>try\<close> block.  Either way
  \<open>analyze_article_with_deepseek\<close> returns (it raises nothing) a default result whose
  five scores are 0 and whose \<open>_meta.fetch_error\<close> names the failure.
\<close>

theorem C4_invalid_reply_gives_default:
  assumes "(\<exists>k\<in>set required_keys. map_of reply k = None) \<or>
           (\<forall>t\<in>set OFFICIAL_TOPICS. map_of reply k_topic \<noteq> Some (JStr t)) \<or>
           (\<forall>c\<in>set OFFICIAL_CATEGORIES. map_of reply k_category \<noteq> Some (JStr c)) \<or>
           (\<forall>sd. map_of reply k_scores = Some (JDict sd) \<longrightarrow>
                 (\<exists>k\<in>set required_score_keys. map_of sd k = None))"
  shows "(validate_analysis_result reply = Inr False \<or>
          validate_analysis_result reply = Inl TypeError_unhashable) \<and>
         (\<forall>key\<in>set required_score_keys.
            score_of (analyze_article_with_deepseek str_exc ctx (Inr reply)) key = Some (JInt 0)) \<and>
         (meta_field (analyze_article_with_deepseek str_exc ctx (Inr reply)) (ascii ''fetch_error'')
            = Some (JStr msg_validation_failed) \<or>
          meta_field (analyze_article_with_deepseek str_exc ctx (Inr reply)) (ascii ''fetch_error'')
            = Some (JStr (msg_api_failed @ [58, 32] @ str_exc (Raised TypeError_unhashable))))"
proof -
  have nt: "validate_analysis_result reply \<noteq> Inr True"
  proof
    assume t: "validate_analysis_result reply = Inr True"
    from validate_TrueD [OF t] assms show False
      by fastforce
  qed
  with validate_range [of reply]
  consider (no) "validate_analysis_result reply = Inr False"
    | (exc) "validate_analysis_result reply = Inl TypeError_unhashable"
    by blast
  then show ?thesis
  proof cases
    case no
    then have "analyze_article_with_deepseek str_exc ctx (Inr reply) = validation_default ctx"
      by (simp add: analyze_article_with_deepseek_def try_block_def)
    with no show ?thesis
      by (simp add: score_of_validation_default meta_validation_default)
  next
    case exc
    then have "analyze_article_with_deepseek str_exc ctx (Inr reply)
                 = failure_default ctx (str_exc (Raised TypeError_unhashable))"
      by (simp add: analyze_article_with_deepseek_def try_block_def)
    with exc show ?thesis
      by (simp add: score_of_failure_default meta_failure_default)
  qed
qed

theorem C4_invalid_reply_gives_default_witness:
  "validate_analysis_result [(k_topic, JStr (ascii ''sport'') :: unit json)] = Inr False \<and>
   score_of (analyze_article_with_deepseek sample_str_exc sample_ctx
               (Inr [(k_topic, JStr (ascii ''sport''))])) k_strategic = Some (JInt 0) \<and>
   meta_field (analyze_article_with_deepseek sample_str_exc sample_ctx
               (Inr [(k_topic, JStr (ascii ''sport''))])) (ascii ''fetch_error'')
     = Some (JStr msg_validation_failed)"
proof -
  let ?reply = "[(k_topic, JStr (ascii ''sport'') :: unit json)]"
  have h: "\<exists>k\<in>set required_keys. map_of ?reply k = None"
    by (simp add: required_keys_def k_topic_def k_category_def)
  have v: "validate_analysis_result ?reply = Inr False"
    by (simp add: validate_analysis_result_def required_keys_def k_topic_def k_category_def)
  have m: "msg_validation_failed \<noteq> msg_api_failed @ [58, 32] @ x" for x
    by (simp add: msg_validation_failed_def msg_api_failed_def)
  have d: "k_strategic \<in> set required_score_keys"
    by (simp add: required_score_keys_def)
  from h C4_invalid_reply_gives_default [of ?reply sample_str_exc sample_ctx]
  have c: "(\<forall>key\<in>set required_score_keys.
            score_of (analyze_article_with_deepseek sample_str_exc sample_ctx (Inr ?reply)) key
              = Some (JInt 0)) \<and>
         (meta_field (analyze_article_with_deepseek sample_str_exc sample_ctx (Inr ?reply))
            (ascii ''fetch_error'') = Some (JStr msg_validation_failed) \<or>
          meta_field (analyze_article_with_deepseek sample_str_exc sample_ctx (Inr ?reply))
            (ascii ''fetch_error'')
            = Some (JStr (msg_api_failed @ [58, 32] @ sample_str_exc (Raised TypeError_unhashable))))"
    by blast
  have f: "meta_field (analyze_article_with_deepseek sample_str_exc sample_ctx (Inr ?reply))
            (ascii ''fetch_error'') = Some (JStr msg_validation_failed)"
    using v by (simp add: analyze_article_with_deepseek_def try_block_def meta_validation_default)
  from c d v f show ?thesis by blast
qed

text \<open>
  The corner of C4 where validation raises instead of answering: every key present, an
  official topic, and a list as category.  The handler still produces the zero scores.
\<close>

lemma validate_unhashable_category:
  "validate_analysis_result
     [(k_topic, JStr (hd OFFICIAL_TOPICS)), (k_category, JList []), (k_summary, JStr []),
      (k_new_title, JStr []), (k_scores, JDict [] :: unit json)] = Inl TypeError_unhashable"
  by (simp add: validate_analysis_result_def required_keys_def in_str_keys_def OFFICIAL_TOPICS_def
        k_topic_def k_category_def k_summary_def k_new_title_def k_scores_def)

section \<open>The crawl: range check and duplicate check\<close>

lemma update_news_time_keeps:
  "map i_id (update_news_time rows ident nt ut tn) = map i_id rows"
  "map i_title (update_news_time rows ident nt ut tn) = map i_title rows"
  by (induction rows) (simp_all add: update_news_time_def)

lemma count_sources_zero:
  "(count_sources srcs ident url = 0) =
     (\<not> (\<exists>s\<in>set srcs. s_intelligence_id s = ident \<and> s_url s = url))"
  by (auto simp: count_sources_def filter_empty_conv)

lemma store_item_existing:
  assumes "select_by_title (intelligence st) (item_title item) = Some existing"
  shows "store_item env tn sd ct news_time item st =
           (if i_news_time existing = None \<and> news_time \<noteq> None
            then st\<lparr>intelligence :=
                      map (\<lambda>r. if i_id r = i_id existing
                                then r\<lparr>i_news_time := Some (isoformat env (the news_time)),
                                       i_update_time := isoformat env ct,
                                       i_topic := Some tn\<rparr>
                                else r) (intelligence st),
                    intelligence_sources :=
                      (if \<exists>s\<in>set (intelligence_sources st).
                             s_intelligence_id s = i_id existing \<and> s_url s = item_url item
                       then intelligence_sources st
                       else intelligence_sources st @
                              [new_source_row (i_id existing) item sd (isoformat env ct)]),
                    updated_count := updated_count st + 1\<rparr>
            else st\<lparr>duplicate_count := duplicate_count st + 1\<rparr>)"
  using assms
  by (simp add: store_item_def Let_def count_sources_zero update_news_time_def)

lemma store_item_new:
  assumes "select_by_title (intelligence st) (item_title item) = None"
  shows "map i_title (intelligence (store_item env tn sd ct news_time item st))
           = map i_title (intelligence st) @ [item_title item] \<and>
         saved_count (store_item env tn sd ct news_time item st) = saved_count st + 1"
  using assms by (simp add: store_item_def Let_def new_intelligence_row_def)

lemma process_item_in_range:
  assumes "\<forall>nt. item_news_time env item = Some nt \<longrightarrow>
                 dt_less nt (minus_days start_date 7) = Inr False"
  shows "process_item env tn sd start_date ct item st =
           store_item env tn sd ct (item_news_time env item) item st"
  using assms
  by (cases "item_news_time env item") (simp_all add: process_item_def item_body_def)

lemma process_item_cases:
  "process_item env tn sd start_date ct item st = st \<or>
   process_item env tn sd start_date ct item st
     = st\<lparr>out_of_range_count := out_of_range_count st + 1\<rparr> \<or>
   process_item env tn sd start_date ct item st
     = store_item env tn sd ct (item_news_time env item) item st"
  by (auto simp: process_item_def item_body_def split: option.splits sum.splits bool.splits)

text \<open>
  A date that carries a time zone cannot be compared with the naive \<open>start_date\<close>: the
  comparison raises, the handler of the loop passes the item over, and nothing is
  written or counted.
\<close>

lemma process_item_aware:
  "item_news_time env item = Some (Aware t) \<Longrightarrow>
     process_item env tn sd (crawl_start_date now days_back) ct item st = st"
  by (simp add: process_item_def item_body_def crawl_start_date_def)

text \<open>
  C7.  With \<open>days_back = 7\<close>, an item whose parsed date is more than 14 days before
  now, that is strictly older than \<open>start_date - 7 days\<close>, is counted as out of range
  and nothing else happens: the duplicate check is not reached and no table changes.  An
  item dated exactly \<open>start_date - 6 days\<close> passes on to the duplicate check, and so
  does an item without a parseable date.
\<close>

theorem C7_grace_window:
  "(item_news_time env item = Some (Naive t) \<and> t < now - 14 * day_us \<longrightarrow>
      process_item env tn sd (crawl_start_date now 7) ct item st
        = st\<lparr>out_of_range_count := out_of_range_count st + 1\<rparr>) \<and>
   (item_news_time env item = Some (minus_days (crawl_start_date now 7) 6) \<longrightarrow>
      process_item env tn sd (crawl_start_date now 7) ct item st
        = store_item env tn sd ct (Some (minus_days (crawl_start_date now 7) 6)) item st) \<and>
   (item_news_time env item = None \<longrightarrow>
      process_item env tn sd (crawl_start_date now 7) ct item st
        = store_item env tn sd ct None item st)"
  by (simp add: process_item_def item_body_def crawl_start_date_def day_us_def)

theorem C7_grace_window_witness:
  "process_item sample_env (ascii ''T'') (ascii ''x.com'') (crawl_start_date (100 * day_us) 7)
     (Naive (100 * day_us)) (sample_item (ascii ''Other'') (ascii ''old'')) sample_state
     = sample_state\<lparr>out_of_range_count := 1\<rparr> \<and>
   map i_title (intelligence
     (process_item sample_env (ascii ''T'') (ascii ''x.com'') (crawl_start_date (100 * day_us) 7)
       (Naive (100 * day_us)) (sample_item (ascii ''Other'') (ascii ''edge'')) sample_state))
     = [ascii ''News'', ascii ''Other''] \<and>
   map i_title (intelligence
     (process_item sample_env (ascii ''T'') (ascii ''x.com'') (crawl_start_date (100 * day_us) 7)
       (Naive (100 * day_us)) (sample_item (ascii ''Other'') (ascii ''undated'')) sample_state))
     = [ascii ''News'', ascii ''Other'']"
proof -
  have d1: "item_news_time sample_env (sample_item (ascii ''Other'') (ascii ''old''))
              = Some (Naive 0) \<and> (0::int) < 100 * day_us - 14 * day_us"
    by (simp add: item_news_time_def sample_env_def sample_item_def sample_parse_def
                  py_strip_def is_space_def ascii_def day_us_def)
  have d2: "item_news_time sample_env (sample_item (ascii ''Other'') (ascii ''edge''))
              = Some (minus_days (crawl_start_date (100 * day_us) 7) 6)"
    by (simp add: item_news_time_def sample_env_def sample_item_def sample_parse_def
                  py_strip_def is_space_def ascii_def day_us_def crawl_start_date_def)
  have d3: "item_news_time sample_env (sample_item (ascii ''Other'') (ascii ''undated'')) = None"
    by (simp add: item_news_time_def sample_env_def sample_item_def sample_parse_def
                  sample_no_parse_def py_strip_def is_space_def ascii_def)
  have new: "select_by_title (intelligence sample_state)
               (item_title (sample_item (ascii ''Other'') x)) = None" for x
    by (simp add: select_by_title_def sample_state_def sample_row_def sample_item_def ascii_def)
  note c = C7_grace_window [of sample_env _ _ "100 * day_us" "ascii ''T''" "ascii ''x.com''"
                               "Naive (100 * day_us)" sample_state]
  from d1 c [of "sample_item (ascii ''Other'') (ascii ''old'')" 0]
  have 1: "process_item sample_env (ascii ''T'') (ascii ''x.com'') (crawl_start_date (100 * day_us) 7)
     (Naive (100 * day_us)) (sample_item (ascii ''Other'') (ascii ''old'')) sample_state
     = sample_state\<lparr>out_of_range_count := 1\<rparr>"
    by (simp add: sample_state_def)
  from d2 c [of "sample_item (ascii ''Other'') (ascii ''edge'')" 0]
  have 2: "process_item sample_env (ascii ''T'') (ascii ''x.com'') (crawl_start_date (100 * day_us) 7)
       (Naive (100 * day_us)) (sample_item (ascii ''Other'') (ascii ''edge'')) sample_state
       = store_item sample_env (ascii ''T'') (ascii ''x.com'') (Naive (100 * day_us))
           (Some (minus_days (crawl_start_date (100 * day_us) 7) 6))
           (sample_item (ascii ''Other'') (ascii ''edge'')) sample_state"
    by blast
  from d3 c [of "sample_item (ascii ''Other'') (ascii ''undated'')" 0]
  have 3: "process_item sample_env (ascii ''T'') (ascii ''x.com'') (crawl_start_date (100 * day_us) 7)
       (Naive (100 * day_us)) (sample_item (ascii ''Other'') (ascii ''undated'')) sample_state
       = store_item sample_env (ascii ''T'') (ascii ''x.com'') (Naive (100 * day_us)) None
           (sample_item (ascii ''Other'') (ascii ''undated'')) sample_state"
    by blast
  have t: "map i_title (intelligence sample_state) = [ascii ''News'']"
          "item_title (sample_item (ascii ''Other'') x) = ascii ''Other''" for x
    by (simp_all add: sample_state_def sample_row_def sample_item_def)
  show ?thesis
    using 1 2 3 store_item_new [OF new] t by simp
qed

text \<open>
  C5, as the code has it.  An item whose title is already in the table never adds an
  Intelligence row.  When its date compares as older than \<open>start_date - 7 days\<close> it is
  counted as out of range and nothing else changes.  When it passes the range check (it
  has no parseable date, or its date compares as not older): if the existing row has no
  \<open>news_time\<close> and the item has a date, the rows with the existing id get the item's
  date, the current time as \<open>update_time\<close> and the crawl's topic, a source row is
  appended exactly when none with that id and URL is recorded, and the item counts as
  updated; otherwise only the duplicate counter changes.
\<close>

theorem C5_merge_or_duplicate:
  assumes "select_by_title (intelligence st) (item_title item) = Some existing"
  shows "map i_id (intelligence (process_item env tn sd start_date ct item st))
           = map i_id (intelligence st) \<and>
         map i_title (intelligence (process_item env tn sd start_date ct item st))
           = map i_title (intelligence st) \<and>
         ((\<exists>nt. item_news_time env item = Some nt \<and>
                 dt_less nt (minus_days start_date 7) = Inr True) \<longrightarrow>
          process_item env tn sd start_date ct item st
            = st\<lparr>out_of_range_count := out_of_range_count st + 1\<rparr>) \<and>
         ((\<forall>nt. item_news_time env item = Some nt \<longrightarrow>
                 dt_less nt (minus_days start_date 7) = Inr False) \<longrightarrow>
          process_item env tn sd start_date ct item st =
            (if i_news_time existing = None \<and> item_news_time env item \<noteq> None
             then st\<lparr>intelligence :=
                       map (\<lambda>r. if i_id r = i_id existing
                                 then r\<lparr>i_news_time :=
                                          Some (isoformat env (the (item_news_time env item))),
                                        i_update_time := isoformat env ct,
                                        i_topic := Some tn\<rparr>
                                 else r) (intelligence st),
                     intelligence_sources :=
                       (if \<exists>s\<in>set (intelligence_sources st).
                              s_intelligence_id s = i_id existing \<and> s_url s = item_url item
                        then intelligence_sources st
                        else intelligence_sources st @
                               [new_source_row (i_id existing) item sd (isoformat env ct)]),
                     updated_count := updated_count st + 1\<rparr>
             else st\<lparr>duplicate_count := duplicate_count st + 1\<rparr>))"
proof -
  let ?p = "process_item env tn sd start_date ct item st"
  let ?s = "store_item env tn sd ct (item_news_time env item) item st"
  have s: "map i_id (intelligence ?s) = map i_id (intelligence st) \<and>
           map i_title (intelligence ?s) = map i_title (intelligence st)"
    by (simp add: store_item_existing [OF assms] o_def)
  from process_item_cases [of env tn sd start_date ct item st] s
  have 1: "map i_id (intelligence ?p) = map i_id (intelligence st) \<and>
           map i_title (intelligence ?p) = map i_title (intelligence st)"
    by auto
  have 2: "(\<forall>nt. item_news_time env item = Some nt \<longrightarrow>
                 dt_less nt (minus_days start_date 7) = Inr False) \<longrightarrow>
           ?p = ?s"
    using process_item_in_range [of env item start_date tn sd ct st] by blast
  have 3: "(\<exists>nt. item_news_time env item = Some nt \<and>
                 dt_less nt (minus_days start_date 7) = Inr True) \<longrightarrow>
           ?p = st\<lparr>out_of_range_count := out_of_range_count st + 1\<rparr>"
    by (auto simp: process_item_def item_body_def)
  from 1 2 3 show ?thesis
    by (simp add: store_item_existing [OF assms])
qed

text \<open>
  The claim as it stands promises the merge for every parseable date.  Here the row
  titled News has no date, the item of the same title has one, a hundred days old: the
  range check discards the item, the row keeps no date and no duplicate is counted.
\<close>

theorem C5_out_of_range_counterexample:
  "select_by_title (intelligence sample_state) (ascii ''News'') = Some sample_row \<and>
   i_news_time sample_row = None \<and>
   item_news_time sample_env (sample_item (ascii ''News'') (ascii ''old'')) = Some (Naive 0) \<and>
   process_item sample_env (ascii ''T'') (ascii ''x.com'') (crawl_start_date (100 * day_us) 7)
     (Naive (100 * day_us)) (sample_item (ascii ''News'') (ascii ''old'')) sample_state
     = sample_state\<lparr>out_of_range_count := 1\<rparr>"
  by (simp add: select_by_title_def sample_state_def sample_row_def item_news_time_def
                sample_env_def sample_item_def sample_parse_def py_strip_def is_space_def
                ascii_def process_item_def item_body_def crawl_start_date_def day_us_def)

theorem C5_merge_or_duplicate_witness:
  "updated_count
     (process_item sample_env (ascii ''T'') (ascii ''x.com'') (crawl_start_date (100 * day_us) 7)
        (Naive (100 * day_us)) (sample_item (ascii ''News'') (ascii ''recent'')) sample_state) = 1 \<and>
   map i_news_time (intelligence
     (process_item sample_env (ascii ''T'') (ascii ''x.com'') (crawl_start_date (100 * day_us) 7)
        (Naive (100 * day_us)) (sample_item (ascii ''News'') (ascii ''recent'')) sample_state))
     = [Some (Naive (94 * day_us))] \<and>
   process_item sample_env (ascii ''T'') (ascii ''x.com'') (crawl_start_date (100 * day_us) 7)
        (Naive (100 * day_us)) (sample_item (ascii ''News'') (ascii ''old'')) sample_state
     = sample_state\<lparr>out_of_range_count := out_of_range_count sample_state + 1\<rparr>"
proof -
  let ?item = "sample_item (ascii ''News'') (ascii ''recent'')"
  let ?old = "sample_item (ascii ''News'') (ascii ''old'')"
  have h: "select_by_title (intelligence sample_state) (item_title ?item) = Some sample_row"
    by (simp add: select_by_title_def sample_state_def sample_row_def sample_item_def)
  have h': "select_by_title (intelligence sample_state) (item_title ?old) = Some sample_row"
    by (simp add: select_by_title_def sample_state_def sample_row_def sample_item_def)
  have d: "item_news_time sample_env ?item = Some (Naive (94 * day_us))"
    by (simp add: item_news_time_def sample_env_def sample_item_def sample_parse_def
                  py_strip_def is_space_def ascii_def)
  have d': "\<exists>nt. item_news_time sample_env ?old = Some nt \<and>
              dt_less nt (minus_days (crawl_start_date (100 * day_us) 7) 7) = Inr True"
    by (simp add: item_news_time_def sample_env_def sample_item_def sample_parse_def
                  py_strip_def is_space_def ascii_def crawl_start_date_def day_us_def)
  note c = C5_merge_or_duplicate [OF h, of sample_env "ascii ''T''" "ascii ''x.com''"
         "crawl_start_date (100 * day_us) 7" "Naive (100 * day_us)", unfolded d]
  from d' C5_merge_or_duplicate [OF h', of sample_env "ascii ''T''" "ascii ''x.com''"
         "crawl_start_date (100 * day_us) 7" "Naive (100 * day_us)"]
  have o: "process_item sample_env (ascii ''T'') (ascii ''x.com'') (crawl_start_date (100 * day_us) 7)
        (Naive (100 * day_us)) ?old sample_state
     = sample_state\<lparr>out_of_range_count := out_of_range_count sample_state + 1\<rparr>"
    by blast
  have "updated_count
     (process_item sample_env (ascii ''T'') (ascii ''x.com'') (crawl_start_date (100 * day_us) 7)
        (Naive (100 * day_us)) ?item sample_state) = 1 \<and>
   map i_news_time (intelligence
     (process_item sample_env (ascii ''T'') (ascii ''x.com'') (crawl_start_date (100 * day_us) 7)
        (Naive (100 * day_us)) ?item sample_state))
     = [Some (Naive (94 * day_us))]"
    using c
    by (simp add: crawl_start_date_def day_us_def sample_row_def sample_state_def
                  sample_env_def sample_iso_def)
  with o show ?thesis by blast
qed

section \<open>Sorting\<close>

lemma set_place: "set (place le x xs) = insert x (set xs)"
  by (induction xs) auto

lemma set_order_by: "set (order_by le xs) = set xs"
  by (induction xs) (simp_all add: order_by_def set_place)

lemma sorted_wrt_place:
  assumes tot: "\<And>a b. le a b \<or> le b a" and tr: "\<And>a b c. le a b \<Longrightarrow> le b c \<Longrightarrow> le a c"
  shows "sorted_wrt le xs \<Longrightarrow> sorted_wrt le (place le x xs)"
proof (induction xs)
  case Nil
  then show ?case by simp
next
  case (Cons y ys)
  show ?case
  proof (cases "le x y")
    case True
    with Cons.prems tr show ?thesis by auto
  next
    case False
    with tot have "le y x" by blast
    with Cons False show ?thesis by (auto simp: set_place)
  qed
qed

lemma sorted_wrt_order_by:
  assumes "\<And>a b. le a b \<or> le b a" and "\<And>a b c. le a b \<Longrightarrow> le b c \<Longrightarrow> le a c"
  shows "sorted_wrt le (order_by le xs)"
proof (induction xs)
  case Nil
  show ?case by (simp add: order_by_def)
next
  case (Cons x xs)
  have "order_by le (x # xs) = place le x (order_by le xs)"
    by (simp add: order_by_def)
  with Cons sorted_wrt_place [of le, OF assms] show ?case by simp
qed

lemma asc_desc_total: "asc_desc desc col a b \<or> asc_desc desc col b a"
  by (auto simp: asc_desc_def)

lemma asc_desc_trans: "asc_desc desc col a b \<Longrightarrow> asc_desc desc col b c \<Longrightarrow> asc_desc desc col a c"
  by (auto simp: asc_desc_def split: if_splits)

lemma sorted_wrt_limit_offset:
  "sorted_wrt le xs \<Longrightarrow> sorted_wrt le (limit_offset n m xs)"
  by (simp add: limit_offset_def Let_def sorted_wrt_drop sorted_wrt_take)

lemma sorted_wrt_unique_by: "sorted_wrt le xs \<Longrightarrow> sorted_wrt le (unique_by f xs)"
proof (induction f xs rule: unique_by.induct)
  case (1 f)
  show ?case by simp
next
  case (2 f x xs)
  from "2.prems" have "sorted_wrt le (filter (\<lambda>y. f y \<noteq> f x) xs)"
    by (simp add: sorted_wrt_filter)
  with "2.IH" have "sorted_wrt le (unique_by f (filter (\<lambda>y. f y \<noteq> f x) xs))" .
  moreover have "set (unique_by f ys) \<subseteq> set ys" for ys
    by (induction f ys rule: unique_by.induct) auto
  then have "set (unique_by f (filter (\<lambda>y. f y \<noteq> f x) xs)) \<subseteq> set xs"
    by fastforce
  ultimately show ?case using "2.prems" by auto
qed


section \<open>Rows without a date come last\<close>

lemma news_time_order_total: "news_time_order desc a b \<or> news_time_order desc b a"
  using asc_desc_total [of desc i_news_time a b]
  by (auto simp: news_time_order_def)

lemma news_time_order_trans:
  "news_time_order desc a b \<Longrightarrow> news_time_order desc b c \<Longrightarrow> news_time_order desc a c"
  using asc_desc_trans [of desc i_news_time a b c]
  by (auto simp: news_time_order_def split: if_splits)

lemma news_time_is_valid: "ascii ''news_time'' \<in> set valid_sort_fields"
  by (simp add: valid_sort_fields_def)

lemma list_sorted_by_news_time:
  assumes "sort_by = ascii ''news_time'' \<or> sort_by \<notin> set valid_sort_fields"
  shows "sorted_wrt (news_time_order (py_lower order_param = ascii ''desc''))
           (get_intelligence_list where_clause item_ok sort_by order_param page page_size table)"
proof -
  let ?desc = "py_lower order_param = ascii ''desc''"
  from assms news_time_is_valid
  have "(if sort_by \<in> set valid_sort_fields then sort_by else ascii ''news_time'')
          = ascii ''news_time''"
    by auto
  then have "get_intelligence_list where_clause item_ok sort_by order_param page page_size table
      = filter item_ok (limit_offset page_size ((page - 1) * page_size)
          (order_by (news_time_order ?desc) (filter where_clause table)))"
    by (simp add: get_intelligence_list_def Let_def intelligence_order_def)
  moreover have "sorted_wrt (news_time_order ?desc)
                   (order_by (news_time_order ?desc) (filter where_clause table))"
    by (rule sorted_wrt_order_by) (rule news_time_order_total, rule news_time_order_trans)
  ultimately show ?thesis
    by (simp add: sorted_wrt_filter sorted_wrt_limit_offset)
qed

text \<open>
  C6.  When the list operation sorts by \<open>news_time\<close> (asked for, or taken because the
  sort field is not allowed), in either direction, every returned row without a
  \<open>news_time\<close> stands strictly after every returned row with one.
\<close>

theorem C6_nulls_last:
  assumes "sort_by = ascii ''news_time'' \<or> sort_by \<notin> set valid_sort_fields"
      and "out = get_intelligence_list where_clause item_ok sort_by order_param page page_size table"
      and "i < length out" and "j < length out"
      and "i_news_time (out ! i) = None" and "i_news_time (out ! j) \<noteq> None"
  shows "j < i"
proof (rule ccontr)
  assume "\<not> j < i"
  moreover from assms(5,6) have "i \<noteq> j" by auto
  ultimately have "i < j" by simp
  from list_sorted_by_news_time [OF assms(1)] assms(2)
  have "sorted_wrt (news_time_order (py_lower order_param = ascii ''desc'')) out"
    by simp
  with \<open>i < j\<close> assms(4)
  have "news_time_order (py_lower order_param = ascii ''desc'') (out ! i) (out ! j)"
    by (simp add: sorted_wrt_nth_less)
  with assms(5,6) show False
    by (simp add: news_time_order_def)
qed

lemma list_example:
  "get_intelligence_list accept_row accept_row (ascii ''news_time'') (ascii ''desc'') 1 20
     [list_row 1 None, list_row 2 (Some 5), list_row 3 (Some 9)]
   = [list_row 3 (Some 9), list_row 2 (Some 5), list_row 1 None]"
  by (simp add: get_intelligence_list_def valid_sort_fields_def intelligence_order_def
                news_time_order_def asc_desc_def limit_offset_def order_by_def accept_row_def
                list_row_def py_lower_def lower_cp_def ascii_def)

theorem C6_nulls_last_witness:
  "get_intelligence_list accept_row accept_row (ascii ''news_time'') (ascii ''desc'') 1 20
     [list_row 1 None, list_row 2 (Some 5), list_row 3 (Some 9)]
     = [list_row 3 (Some 9), list_row 2 (Some 5), list_row 1 None] \<and>
   i_news_time ([list_row 3 (Some 9), list_row 2 (Some 5), list_row 1 None] ! 2) = None \<and>
   i_news_time ([list_row 3 (Some 9), list_row 2 (Some 5), list_row 1 None] ! 0) \<noteq> None \<and>
   (0::nat) < 2"
proof -
  let ?out = "[list_row 3 (Some 9), list_row 2 (Some 5), list_row 1 None]"
  have a: "i_news_time (?out ! 2) = None" "i_news_time (?out ! 0) \<noteq> None"
    by (simp_all add: list_row_def)
  have h1: "ascii ''news_time'' = ascii ''news_time'' \<or> ascii ''news_time'' \<notin> set valid_sort_fields"
    by simp
  have h2: "?out = get_intelligence_list accept_row accept_row (ascii ''news_time'')
              (ascii ''desc'') 1 20 [list_row 1 None, list_row 2 (Some 5), list_row 3 (Some 9)]"
    by (rule list_example [symmetric])
  have h3: "2 < length ?out" and h4: "0 < length ?out"
    by simp_all
  have "(0::nat) < 2"
    by (rule C6_nulls_last [OF h1 h2 h3 h4 a])
  with list_example a show ?thesis by blast
qed

section \<open>Sorted sources\<close>

lemma query_sorted:
  assumes "source_order (source_getattr class_has sort_by) (py_lower order_param = ascii ''desc'')
             = Some le"
      and "\<And>a b. le a b \<or> le b a" and "\<And>a b c. le a b \<Longrightarrow> le b c \<Longrightarrow> le a c"
  shows "\<exists>out. get_sources_with_filter_and_sort ilike class_has q topic_id sort_by order_param table
                 = Some out \<and> sorted_wrt le out"
  using assms(1) sorted_wrt_order_by [of le, OF assms(2,3)]
  by (simp add: get_sources_with_filter_and_sort_def Let_def sorted_wrt_unique_by)

lemma query_sorted_col:
  assumes "source_order (source_getattr class_has sort_by) (py_lower order_param = ascii ''desc'')
             = Some (asc_desc (py_lower order_param = ascii ''desc'') col)"
  shows "\<exists>out. get_sources_with_filter_and_sort ilike class_has q topic_id sort_by order_param table
                 = Some out \<and> sorted_wrt (asc_desc (py_lower order_param = ascii ''desc'') col) out"
  by (rule query_sorted [OF assms]) (rule asc_desc_total, rule asc_desc_trans)

lemma column_names_distinct:
  "ascii ''domain'' \<noteq> ascii ''id''" "ascii ''recipe_json'' \<noteq> ascii ''id''"
  "ascii ''recipe_json'' \<noteq> ascii ''domain''" "ascii ''created_at'' \<noteq> ascii ''id''"
  "ascii ''created_at'' \<noteq> ascii ''domain''" "ascii ''created_at'' \<noteq> ascii ''recipe_json''"
  "ascii ''updated_at'' \<noteq> ascii ''id''" "ascii ''updated_at'' \<noteq> ascii ''domain''"
  "ascii ''updated_at'' \<noteq> ascii ''recipe_json''" "ascii ''updated_at'' \<noteq> ascii ''created_at''"
  by (simp_all add: ascii_def)

lemma route_order:
  "(py_lower (if py_lower order_param \<in> set [ascii ''asc'', ascii ''desc''] then order_param
              else ascii ''asc'') = ascii ''desc'')
     = (py_lower order_param = ascii ''desc'')"
  by (simp add: py_lower_def lower_cp_def ascii_def)

text \<open>
  C9, as the code has it.  The query function sorts by the mapped column that
  \<open>sort_by\<close> names, \<open>recipe_json\<close> included, and by \<open>id\<close> when the class has no
  attribute of that name.  The allow-list is the route's: for a sort parameter among
  \<open>id\<close>, \<open>domain\<close>, \<open>created_at\<close>, \<open>updated_at\<close> the table is sorted by that
  column, for any other by \<open>id\<close>.  Everywhere the direction is descending when the order
  parameter lower-cases to \<open>desc\<close> and ascending otherwise.
\<close>

theorem C9_source_sorting:
  fixes table :: "('t::linorder) source list" and order_param :: pystr
  defines "desc \<equiv> (py_lower order_param = ascii ''desc'')"
  shows
  "(sort_by = ascii ''recipe_json'' \<longrightarrow>
      (\<exists>out. get_sources_with_filter_and_sort ilike class_has q topic_id sort_by order_param table
                = Some out \<and> sorted_wrt (asc_desc desc src_recipe_json) out)) \<and>
   (sort_by \<notin> set [ascii ''id'', ascii ''domain'', ascii ''recipe_json'', ascii ''created_at'',
                    ascii ''updated_at'', ascii ''topics''] \<and> \<not> class_has sort_by \<longrightarrow>
      (\<exists>out. get_sources_with_filter_and_sort ilike class_has q topic_id sort_by order_param table
                = Some out \<and> sorted_wrt (asc_desc desc src_id) out)) \<and>
   (sort_by = ascii ''id'' \<longrightarrow>
      (\<exists>out. api_get_sources_table ilike class_has q topic_id sort_by order_param table
                = Some out \<and> sorted_wrt (asc_desc desc src_id) out)) \<and>
   (sort_by = ascii ''domain'' \<longrightarrow>
      (\<exists>out. api_get_sources_table ilike class_has q topic_id sort_by order_param table
                = Some out \<and> sorted_wrt (asc_desc desc src_domain) out)) \<and>
   (sort_by = ascii ''created_at'' \<longrightarrow>
      (\<exists>out. api_get_sources_table ilike class_has q topic_id sort_by order_param table
                = Some out \<and> sorted_wrt (asc_desc desc src_created_at) out)) \<and>
   (sort_by = ascii ''updated_at'' \<longrightarrow>
      (\<exists>out. api_get_sources_table ilike class_has q topic_id sort_by order_param table
                = Some out \<and> sorted_wrt (asc_desc desc src_updated_at) out)) \<and>
   (sort_by \<notin> set [ascii ''id'', ascii ''domain'', ascii ''created_at'', ascii ''updated_at''] \<longrightarrow>
      (\<exists>out. api_get_sources_table ilike class_has q topic_id sort_by order_param table
                = Some out \<and> sorted_wrt (asc_desc desc src_id) out))"
proof -
  let ?o' = "if py_lower order_param \<in> set [ascii ''asc'', ascii ''desc''] then order_param
             else ascii ''asc''"
  have q1: "sort_by = ascii ''recipe_json'' \<longrightarrow>
      (\<exists>out. get_sources_with_filter_and_sort ilike class_has q topic_id sort_by order_param table
                = Some out \<and> sorted_wrt (asc_desc desc src_recipe_json) out)"
    unfolding desc_def
    by (intro impI query_sorted_col) (simp add: source_getattr_def column_names_distinct)
  have q2: "sort_by \<notin> set [ascii ''id'', ascii ''domain'', ascii ''recipe_json'',
                ascii ''created_at'', ascii ''updated_at'', ascii ''topics''] \<and> \<not> class_has sort_by \<longrightarrow>
      (\<exists>out. get_sources_with_filter_and_sort ilike class_has q topic_id sort_by order_param table
                = Some out \<and> sorted_wrt (asc_desc desc src_id) out)"
    unfolding desc_def
    by (intro impI query_sorted_col) (simp add: source_getattr_def)
  have r: "\<exists>out. get_sources_with_filter_and_sort ilike class_has q topic_id s ?o' table
                   = Some out \<and> sorted_wrt (asc_desc desc col) out"
    if "source_order (source_getattr class_has s) desc = Some (asc_desc desc col)"
    for s and col :: "'t source \<Rightarrow> 'k::linorder"
    using query_sorted_col [of class_has s ?o' col ilike q topic_id table] that
    unfolding desc_def route_order by simp
  have r1: "sort_by = ascii ''id'' \<longrightarrow>
      (\<exists>out. api_get_sources_table ilike class_has q topic_id sort_by order_param table
                = Some out \<and> sorted_wrt (asc_desc desc src_id) out)"
    using r [of "ascii ''id''" src_id]
    by (simp add: api_get_sources_table_def Let_def source_getattr_def)
  have r2: "sort_by = ascii ''domain'' \<longrightarrow>
      (\<exists>out. api_get_sources_table ilike class_has q topic_id sort_by order_param table
                = Some out \<and> sorted_wrt (asc_desc desc src_domain) out)"
    using r [of "ascii ''domain''" src_domain]
    by (simp add: api_get_sources_table_def Let_def source_getattr_def column_names_distinct)
  have r3: "sort_by = ascii ''created_at'' \<longrightarrow>
      (\<exists>out. api_get_sources_table ilike class_has q topic_id sort_by order_param table
                = Some out \<and> sorted_wrt (asc_desc desc src_created_at) out)"
    using r [of "ascii ''created_at''" src_created_at]
    by (simp add: api_get_sources_table_def Let_def source_getattr_def column_names_distinct)
  have r4: "sort_by = ascii ''updated_at'' \<longrightarrow>
      (\<exists>out. api_get_sources_table ilike class_has q topic_id sort_by order_param table
                = Some out \<and> sorted_wrt (asc_desc desc src_updated_at) out)"
    using r [of "ascii ''updated_at''" src_updated_at]
    by (simp add: api_get_sources_table_def Let_def source_getattr_def column_names_distinct)
  have r5: "sort_by \<notin> set [ascii ''id'', ascii ''domain'', ascii ''created_at'',
                ascii ''updated_at''] \<longrightarrow>
      (\<exists>out. api_get_sources_table ilike class_has q topic_id sort_by order_param table
                = Some out \<and> sorted_wrt (asc_desc desc src_id) out)"
    using r [of "ascii ''id''" src_id]
    by (simp add: api_get_sources_table_def Let_def source_getattr_def)
  from q1 q2 r1 r2 r3 r4 r5 show ?thesis by blast
qed

theorem C9_source_sorting_witness:
  "(\<exists>out. api_get_sources_table sample_ilike sample_class_has None None
             (ascii ''domain'') (ascii ''asc'')
             [sample_source 1 (ascii ''b.com'') (ascii ''{}''),
              sample_source 2 (ascii ''a.com'') (ascii ''{}'')] = Some out \<and>
          sorted_wrt (asc_desc False src_domain) out) \<and>
   (\<exists>out. api_get_sources_table sample_ilike sample_class_has None None
             (ascii ''name'') (ascii ''DESC'')
             [sample_source 1 (ascii ''b.com'') (ascii ''{}''),
              sample_source 2 (ascii ''a.com'') (ascii ''{}'')] = Some out \<and>
          sorted_wrt (asc_desc True src_id) out)"
proof -
  let ?table = "[sample_source 1 (ascii ''b.com'') (ascii ''{}''),
                 sample_source 2 (ascii ''a.com'') (ascii ''{}'')]"
  have d1: "(py_lower (ascii ''asc'') = ascii ''desc'') = False"
    by (simp add: py_lower_def lower_cp_def ascii_def)
  have d2: "(py_lower (ascii ''DESC'') = ascii ''desc'') = True"
    by (simp add: py_lower_def lower_cp_def ascii_def)
  have h2: "ascii ''name'' \<notin> set [ascii ''id'', ascii ''domain'', ascii ''created_at'',
                                   ascii ''updated_at'']"
    by (simp add: ascii_def)
  from C9_source_sorting [of "ascii ''domain''" sample_ilike sample_class_has None None
                             "ascii ''asc''" ?table, unfolded d1]
  have 1: "\<exists>out. api_get_sources_table sample_ilike sample_class_has None None
             (ascii ''domain'') (ascii ''asc'') ?table = Some out \<and>
          sorted_wrt (asc_desc False src_domain) out"
    by blast
  from h2 C9_source_sorting [of "ascii ''name''" sample_ilike sample_class_has None None
                             "ascii ''DESC''" ?table, unfolded d2]
  have 2: "\<exists>out. api_get_sources_table sample_ilike sample_class_has None None
             (ascii ''name'') (ascii ''DESC'') ?table = Some out \<and>
          sorted_wrt (asc_desc True src_id) out"
    by blast
  from 1 2 show ?thesis by blast
qed

text \<open>
  The claim as it stands fails at both ends.  The query function called with
  \<open>recipe_json\<close> sorts by that column, which is not on the list; and the route called
  with the sort value \<open>name\<close> and the order \<open>desc\<close> returns the sources by
  descending id, not ascending.
\<close>

theorem C9_allow_list_counterexample:
  "get_sources_with_filter_and_sort sample_ilike sample_class_has None None
     (ascii ''recipe_json'') (ascii ''asc'')
     [sample_source 1 (ascii ''a.com'') (ascii ''z''), sample_source 2 (ascii ''b.com'') (ascii ''a'')]
     = Some [sample_source 2 (ascii ''b.com'') (ascii ''a''),
             sample_source 1 (ascii ''a.com'') (ascii ''z'')] \<and>
   api_get_sources_table sample_ilike sample_class_has None None (ascii ''name'') (ascii ''desc'')
     [sample_source 1 (ascii ''a.com'') (ascii ''{}''), sample_source 2 (ascii ''b.com'') (ascii ''{}'')]
     = Some [sample_source 2 (ascii ''b.com'') (ascii ''{}''),
             sample_source 1 (ascii ''a.com'') (ascii ''{}'')] \<and>
   \<not> sorted_wrt (asc_desc False src_id)
       [sample_source 2 (ascii ''b.com'') (ascii ''{}''),
        sample_source 1 (ascii ''a.com'') (ascii ''{}'')] \<and>
   \<not> sorted_wrt (asc_desc False src_id)
       [sample_source 2 (ascii ''b.com'') (ascii ''a''),
        sample_source 1 (ascii ''a.com'') (ascii ''z'')]"
  by (simp add: api_get_sources_table_def get_sources_with_filter_and_sort_def Let_def
                source_getattr_def sample_class_has_def order_by_def asc_desc_def
                sample_source_def py_lower_def lower_cp_def ascii_def)

section \<open>Normalising a domain\<close>

lemma set_before_char: "x \<in> set (before_char c s) \<Longrightarrow> x \<in> set s \<and> x \<noteq> c"
  by (auto simp: before_char_def dest: set_takeWhileD)

lemma set_tl: "x \<in> set (tl xs) \<Longrightarrow> x \<in> set xs"
  by (cases xs) auto

lemma set_after_char: "x \<in> set (after_char c s) \<Longrightarrow> x \<in> set s"
  by (auto simp: after_char_def dest!: set_tl dest: set_dropWhileD)

lemma before_char_absent: "c \<notin> set s \<Longrightarrow> before_char c s = s"
  by (simp add: before_char_def takeWhile_eq_all_conv) blast

lemma set_split_scheme: "x \<in> set (snd (split_scheme u)) \<Longrightarrow> x \<in> set u"
  by (auto simp: split_scheme_def Let_def split: if_splits
           dest!: set_tl dest: set_dropWhileD)

lemma set_splitnetloc:
  "x \<in> set (fst (splitnetloc u)) \<Longrightarrow> x \<in> set u \<and> \<not> is_delim x"
  "x \<in> set (snd (splitnetloc u)) \<Longrightarrow> x \<in> set u"
  by (auto simp: splitnetloc_def dest: set_takeWhileD set_dropWhileD in_set_dropD)

lemma set_remove_unsafe:
  "x \<in> set (remove_unsafe u) \<Longrightarrow> x \<noteq> 9 \<and> x \<noteq> 10 \<and> x \<noteq> 13"
  by (simp add: remove_unsafe_def)

lemma urlsplit_parts:
  assumes "urlsplit vb u = Inr r"
  shows "\<forall>x\<in>set (netloc r). clean x \<and> x \<noteq> 47" and "\<forall>x\<in>set (path r). clean x"
proof -
  define url1 where "url1 = remove_unsafe (lstrip_c0 u)"
  define url2 where "url2 = snd (split_scheme url1)"
  define nl where "nl = (if take 2 url2 = ascii ''//'' then fst (splitnetloc url2) else [])"
  define url3 where "url3 = (if take 2 url2 = ascii ''//'' then snd (splitnetloc url2) else url2)"
  define url4 where "url4 = (if 35 \<in> set url3 then before_char 35 url3 else url3)"
  define url5 where "url5 = (if 63 \<in> set url4 then before_char 63 url4 else url4)"
  from assms have r: "netloc r = nl" "path r = url5"
    by (auto simp: urlsplit_def Let_def url1_def url2_def nl_def url3_def url4_def url5_def
             split: prod.splits if_splits)
  have s1: "\<forall>x\<in>set url1. x \<noteq> 9 \<and> x \<noteq> 10 \<and> x \<noteq> 13"
    using set_remove_unsafe by (auto simp: url1_def)
  have s2: "set url2 \<subseteq> set url1"
    using set_split_scheme by (auto simp: url2_def)
  have snl: "\<forall>x\<in>set nl. x \<in> set url2 \<and> \<not> is_delim x"
    using set_splitnetloc(1) by (auto simp: nl_def)
  have s3: "set url3 \<subseteq> set url2"
    using set_splitnetloc(2) by (auto simp: url3_def)
  have s4: "\<forall>x\<in>set url4. x \<in> set url3 \<and> x \<noteq> 35"
    using set_before_char by (auto simp: url4_def)
  have s5: "\<forall>x\<in>set url5. x \<in> set url4 \<and> x \<noteq> 63"
    using set_before_char by (auto simp: url5_def)
  from s2 snl have "\<forall>x\<in>set nl. x \<in> set url1 \<and> x \<noteq> 47 \<and> x \<noteq> 63 \<and> x \<noteq> 35"
    by (auto simp: is_delim_def)
  with s1 show "\<forall>x\<in>set (netloc r). clean x \<and> x \<noteq> 47"
    unfolding r clean_def by blast
  from s2 s3 s4 s5 have "\<forall>x\<in>set url5. x \<in> set url1 \<and> x \<noteq> 35 \<and> x \<noteq> 63"
    by blast
  with s1 show "\<forall>x\<in>set (path r). clean x"
    unfolding r clean_def by blast
qed

lemma set_splitparams_path: "x \<in> set (splitparams_path u) \<Longrightarrow> x \<in> set u"
  by (auto simp: splitparams_path_def Let_def split: if_splits
           dest: set_before_char in_set_takeD in_set_dropD)

lemma urlparse_parts:
  assumes "urlparse vb u = Inr r"
  shows "\<forall>x\<in>set (netloc r). clean x \<and> x \<noteq> 47" and "\<forall>x\<in>set (path r). clean x"
proof -
  from assms obtain r0 where r0: "urlsplit vb u = Inr r0"
      and r: "r = r0 \<or> r = r0\<lparr>path := splitparams_path (path r0)\<rparr>"
    by (auto simp: urlparse_def split: sum.splits if_splits)
  from r urlsplit_parts(1) [OF r0] show "\<forall>x\<in>set (netloc r). clean x \<and> x \<noteq> 47"
    by auto
  from r urlsplit_parts(2) [OF r0] set_splitparams_path show "\<forall>x\<in>set (path r). clean x"
    by auto
qed

lemma lower_cp_clean: "clean (lower_cp x) = clean x" "(lower_cp x = 47) = (x = 47)"
  by (auto simp: clean_def lower_cp_def)

lemma lower_cp_idem: "lower_cp (lower_cp x) = lower_cp x"
  by (simp add: lower_cp_def)

lemma parse_domain_result:
  assumes "parse_domain vb s = Inr h"
  shows "\<forall>x\<in>set h. clean x \<and> x \<noteq> 47" and "py_lower h = h"
proof -
  show "py_lower h = h"
    using assms
    by (auto simp: parse_domain_def Let_def py_lower_def lower_cp_idem
             split: if_splits sum.splits)
  show "\<forall>x\<in>set h. clean x \<and> x \<noteq> 47"
  proof (cases "py_strip s = []")
    case True
    with assms show ?thesis by (simp add: parse_domain_def)
  next
    case False
    with assms obtain p where
        p: "urlparse vb (if py_in (ascii ''://'') (py_strip s) then py_strip s
                         else ascii ''https://'' @ py_strip s) = Inr p"
      and h: "h = py_lower (let host1 = before_char 47 (if netloc p \<noteq> [] then netloc p else path p)
                            in if prefix (ascii ''www.'') host1 then drop 4 host1 else host1)"
      by (auto simp: parse_domain_def Let_def split: sum.splits)
    have host: "\<forall>x\<in>set (if netloc p \<noteq> [] then netloc p else path p). clean x"
      using urlparse_parts [OF p] by auto
    define host1 where "host1 = before_char 47 (if netloc p \<noteq> [] then netloc p else path p)"
    define host2 where "host2 = (if prefix (ascii ''www.'') host1 then drop 4 host1 else host1)"
    have "\<forall>x\<in>set host1. clean x \<and> x \<noteq> 47"
      using host set_before_char unfolding host1_def by blast
    moreover have "set host2 \<subseteq> set host1"
      by (auto simp: host2_def dest: in_set_dropD)
    ultimately have "\<forall>x\<in>set host2. clean x \<and> x \<noteq> 47"
      by blast
    moreover have "h = py_lower host2"
      by (simp add: h host1_def host2_def Let_def)
    ultimately show ?thesis
      by (auto simp: py_lower_def lower_cp_clean)
  qed
qed

lemma py_in_subset: "py_in n s \<Longrightarrow> set n \<subseteq> set s"
proof (induction s)
  case Nil
  then show ?case by simp
next
  case (Cons c cs)
  from Cons.prems have "prefix n (c # cs) \<or> py_in n cs" by simp
  then show ?case
  proof
    assume "prefix n (c # cs)"
    then show ?thesis by (rule set_mono_prefix)
  next
    assume "py_in n cs"
    with Cons.IH show ?thesis by auto
  qed
qed

text \<open>The second pass over a result that is a bare host: a leading \<open>www.\<close> is
  taken off, and nothing else changes.\<close>

lemma parse_domain_bare_host:
  assumes cl: "\<forall>x\<in>set h. clean x \<and> x \<noteq> 47" and low: "py_lower h = h"
      and strip: "py_strip h = h" and br: "91 \<notin> set h" "93 \<notin> set h"
  shows "parse_domain vb h = Inr (if prefix (ascii ''www.'') h then drop 4 h else h)"
proof (cases "h = []")
  case True
  then show ?thesis by (simp add: parse_domain_def py_strip_def ascii_def)
next
  case False
  have no_sep: "\<not> py_in (ascii ''://'') h"
  proof
    assume "py_in (ascii ''://'') h"
    from py_in_subset [OF this] have "47 \<in> set h" by (simp add: ascii_def)
    with cl show False by blast
  qed
  have unsafe: "remove_unsafe h = h"
    using cl by (auto simp: remove_unsafe_def clean_def filter_id_conv)
  have nodelim: "takeWhile (\<lambda>c. \<not> is_delim c) h = h" "dropWhile (\<lambda>c. \<not> is_delim c) h = []"
    using cl by (auto simp: takeWhile_eq_all_conv clean_def is_delim_def)
  have split: "urlsplit vb (ascii ''https://'' @ h)
      = Inr \<lparr> scheme = ascii ''https'', netloc = h, path = [], query = [], fragment = [] \<rparr>"
    using br
    by (simp add: urlsplit_def lstrip_c0_def remove_unsafe_def unsafe [unfolded remove_unsafe_def]
          split_scheme_def is_ascii_alpha_def scheme_char_def py_lower_def lower_cp_def
          splitnetloc_def nodelim ascii_def Let_def)
  have parse: "urlparse vb (ascii ''https://'' @ h)
      = Inr \<lparr> scheme = ascii ''https'', netloc = h, path = [], query = [], fragment = [] \<rparr>"
    by (simp add: urlparse_def split)
  have slash: "before_char 47 h = h"
    using cl by (intro before_char_absent) blast
  have "py_lower (drop 4 h) = drop 4 (py_lower h)"
    by (simp add: py_lower_def drop_map)
  with low have low4: "py_lower (drop 4 h) = drop 4 h"
    by simp
  show ?thesis
    using False no_sep low low4
    by (simp add: parse_domain_def strip parse slash Let_def)
qed

lemmas parse_domain_eval =
  parse_domain_def urlparse_def urlsplit_def lstrip_c0_def remove_unsafe_def split_scheme_def
  is_ascii_alpha_def scheme_char_def splitnetloc_def is_delim_def before_char_def after_char_def
  uses_params_def splitparams_path_def py_strip_def is_space_def py_lower_def lower_cp_def
  ascii_def Let_def

lemma parse_domain_https_example:
  "parse_domain vb (ascii ''https://Example.COM'') = Inr (ascii ''example.com'')"
  by (simp add: parse_domain_eval)

text \<open>
  C1, as the code has it.  \<open>_parse_domain("https://Example.COM")\<close> is
  \<open>"example.com"\<close>.  For every input of ASCII characters on which the function returns a
  result: the result has no slash and is in lower case; and when it has no white space at
  either end and holds no square bracket, normalising it again returns it unchanged if it
  does not begin with \<open>www.\<close>, and returns it without these four characters if it
  does: the prefix is removed once per pass.
\<close>

theorem C1_parse_domain_idempotent:
  assumes "\<forall>c\<in>set s. c < 128" and "parse_domain vb s = Inr h"
  shows "parse_domain vb (ascii ''https://Example.COM'') = Inr (ascii ''example.com'') \<and>
         47 \<notin> set h \<and> py_lower h = h \<and>
         (\<not> prefix (ascii ''www.'') h \<and> py_strip h = h \<and> 91 \<notin> set h \<and> 93 \<notin> set h
            \<longrightarrow> parse_domain vb h = Inr h) \<and>
         (prefix (ascii ''www.'') h \<and> py_strip h = h \<and> 91 \<notin> set h \<and> 93 \<notin> set h
            \<longrightarrow> parse_domain vb h = Inr (drop 4 h))"
proof -
  note res = parse_domain_result [OF assms(2)]
  from res(1) have "47 \<notin> set h" by blast
  moreover have "py_strip h = h \<and> 91 \<notin> set h \<and> 93 \<notin> set h
            \<longrightarrow> parse_domain vb h = Inr (if prefix (ascii ''www.'') h then drop 4 h else h)"
    using parse_domain_bare_host [OF res] by blast
  ultimately show ?thesis
    using res(2) parse_domain_https_example by simp
qed

theorem C1_parse_domain_idempotent_witness:
  "parse_domain reject_bracketed (ascii ''https://Example.COM'') = Inr (ascii ''example.com'') \<and>
   parse_domain reject_bracketed (ascii ''example.com'') = Inr (ascii ''example.com'') \<and>
   parse_domain reject_bracketed (ascii ''www.www.example.com'') = Inr (ascii ''www.example.com'') \<and>
   parse_domain reject_bracketed (ascii ''www.example.com'') = Inr (drop 4 (ascii ''www.example.com''))"
proof -
  have a: "\<forall>c\<in>set (ascii ''https://Example.COM''). c < 128"
    by (simp add: ascii_def)
  have p: "parse_domain reject_bracketed (ascii ''https://Example.COM'') = Inr (ascii ''example.com'')"
    by (rule parse_domain_https_example)
  have h: "\<not> prefix (ascii ''www.'') (ascii ''example.com'') \<and>
           py_strip (ascii ''example.com'') = ascii ''example.com'' \<and>
           91 \<notin> set (ascii ''example.com'') \<and> 93 \<notin> set (ascii ''example.com'')"
    by (simp add: py_strip_def is_space_def ascii_def)
  have a2: "\<forall>c\<in>set (ascii ''www.www.example.com''). c < 128"
    by (simp add: ascii_def)
  have p2: "parse_domain reject_bracketed (ascii ''www.www.example.com'')
              = Inr (ascii ''www.example.com'')"
    by (simp add: parse_domain_eval)
  have h2: "prefix (ascii ''www.'') (ascii ''www.example.com'') \<and>
           py_strip (ascii ''www.example.com'') = ascii ''www.example.com'' \<and>
           91 \<notin> set (ascii ''www.example.com'') \<and> 93 \<notin> set (ascii ''www.example.com'')"
    by (simp add: py_strip_def is_space_def ascii_def)
  from C1_parse_domain_idempotent [OF a p] h
       C1_parse_domain_idempotent [OF a2 p2] h2 p p2
  show ?thesis
    by blast
qed

text \<open>
  The claim as it stands fails twice.  A result can still begin with \<open>www.\<close>: the
  prefix is taken off once.  And the prefix is looked for before the host is
  lower-cased, so \<open>WWW.\<close> stays and the claim's first example gives
  \<open>www.example.com\<close>.
\<close>

theorem C1_www_counterexample:
  "parse_domain reject_bracketed (ascii ''www.www.example.com'') = Inr (ascii ''www.example.com'') \<and>
   parse_domain reject_bracketed (ascii ''www.example.com'') = Inr (ascii ''example.com'') \<and>
   parse_domain reject_bracketed (ascii ''WWW.Example.com/path'') = Inr (ascii ''www.example.com'')"
  by (simp add: parse_domain_eval)

text \<open>Two more results that are no fixed points: a host that keeps a trailing space, and
  a result with an unmatched bracket, on which the second pass raises.\<close>

lemma parse_domain_space_example:
  "parse_domain reject_bracketed (ascii ''x /y'') = Inr (ascii ''x '') \<and>
   parse_domain reject_bracketed (ascii ''x '') = Inr (ascii ''x'')"
  by (simp add: parse_domain_eval)

lemma parse_domain_bracket_example:
  "parse_domain reject_bracketed (ascii ''[x://'') = Inr (ascii ''[x:'') \<and>
   parse_domain reject_bracketed (ascii ''[x:'') = Inl ValueError_url"
  by (simp add: parse_domain_eval)


section \<open>The composite score\<close>

lemma round_half_even_error: "\<bar>of_int (round_half_even y) - y\<bar> \<le> 1 / 2"
proof -
  have "of_int \<lfloor>y\<rfloor> \<le> y" "y < of_int \<lfloor>y\<rfloor> + 1"
    by linarith+
  then show ?thesis
    by (auto simp: round_half_even_def Let_def)
qed

lemma round_half_even_near:
  assumes "\<bar>y - of_int k\<bar> < 1 / 2"
  shows "round_half_even y = k"
proof -
  from round_half_even_error [of y] assms
  have "\<bar>(of_int (round_half_even y) :: rat) - of_int k\<bar> < 1"
    by linarith
  then have "\<bar>(of_int (round_half_even y - k) :: rat)\<bar> < 1"
    by simp
  then have "\<bar>round_half_even y - k\<bar> < 1"
    by (metis of_int_abs of_int_less_1_iff)
  then show ?thesis by linarith
qed

lemma round_half_even_between:
  assumes "of_int m < y" "y < of_int m + 1"
  shows "round_half_even y = m \<or> round_half_even y = m + 1"
proof -
  from assms have "\<lfloor>y\<rfloor> = m" by linarith
  then show ?thesis
    by (auto simp: round_half_even_def Let_def)
qed

lemma pow2_pos: "0 < pow2 e"
  by (simp add: pow2_def)

lemma pow2_binade_le:
  assumes "0 < a"
  shows "pow2 (binade a) \<le> a"
proof (cases "1 \<le> a")
  case True
  then have f: "0 < \<lfloor>a\<rfloor>" by linarith
  from bitlen_bounds [OF f] have "(2::int) ^ nat (bitlen \<lfloor>a\<rfloor> - 1) \<le> \<lfloor>a\<rfloor>" by blast
  then have "(of_int ((2::int) ^ nat (bitlen \<lfloor>a\<rfloor> - 1)) :: rat) \<le> of_int \<lfloor>a\<rfloor>"
    by (simp only: of_int_le_iff)
  then have "(2::rat) ^ nat (bitlen \<lfloor>a\<rfloor> - 1) \<le> of_int \<lfloor>a\<rfloor>"
    by simp
  also have "(of_int \<lfloor>a\<rfloor> :: rat) \<le> a" by linarith
  finally have le: "(2::rat) ^ nat (bitlen \<lfloor>a\<rfloor> - 1) \<le> a" .
  have "0 \<le> bitlen \<lfloor>a\<rfloor> - 1"
    using f by (simp add: bitlen_alt_def)
  then have "pow2 (binade a) = 2 ^ nat (bitlen \<lfloor>a\<rfloor> - 1)"
    using True by (simp add: binade_def pow2_def)
  with le show ?thesis by simp
next
  case False
  define n where "n = \<lceil>1 / a\<rceil> - 1"
  from False assms have "1 < 1 / a" by (simp add: field_simps)
  then have n: "0 < n" unfolding n_def by linarith
  from bitlen_bounds [OF n] have "n < 2 ^ nat (bitlen n)" by blast
  then have "n + 1 \<le> 2 ^ nat (bitlen n)" by linarith
  then have "(of_int (n + 1) :: rat) \<le> of_int (2 ^ nat (bitlen n))"
    by (simp only: of_int_le_iff)
  moreover have "1 / a \<le> of_int (n + 1)"
    unfolding n_def by simp
  ultimately have "1 / a \<le> 2 ^ nat (bitlen n)"
    by simp
  with assms have "1 / 2 ^ nat (bitlen n) \<le> a"
    by (simp add: field_simps)
  moreover have "0 < bitlen n"
    using n by (simp add: bitlen_alt_def) 
  ultimately show ?thesis
    using False by (simp add: binade_def pow2_def n_def)
qed

lemma to_double_error:
  assumes "\<bar>x\<bar> \<le> 16"
  shows "\<bar>to_double x - x\<bar> \<le> 1 / 2 ^ 49"
proof (cases "x = 0")
  case True
  then show ?thesis by (simp add: to_double_def)
next
  case False
  define k where "k = max (binade \<bar>x\<bar>) (- 1022)"
  define ulp where "ulp = pow2 k / 2 ^ 52"
  have up: "0 < ulp" by (simp add: ulp_def pow2_pos)
  have "pow2 k \<le> 16"
  proof (cases "- 1022 \<le> binade \<bar>x\<bar>")
    case True
    then have "k = binade \<bar>x\<bar>" by (simp add: k_def)
    with pow2_binade_le [of "\<bar>x\<bar>"] False assms show ?thesis by simp
  next
    case False
    then have "k = - 1022" by (simp add: k_def)
    then have "pow2 k = 1 / 2 ^ 1022" by (simp add: pow2_def)
    also have "\<dots> \<le> 1" by simp
    finally show ?thesis by simp
  qed
  then have ulp16: "ulp \<le> 16 / 2 ^ 52"
    by (simp add: ulp_def divide_right_mono)
  have td: "to_double x = of_int (round_half_even (x / ulp)) * ulp"
    using False by (simp add: to_double_def Let_def k_def ulp_def)
  have "to_double x - x = (of_int (round_half_even (x / ulp)) - x / ulp) * ulp"
    using up by (simp add: td field_simps)
  then have "\<bar>to_double x - x\<bar> = \<bar>of_int (round_half_even (x / ulp)) - x / ulp\<bar> * ulp"
    using up by (simp add: abs_mult)
  also have "\<dots> \<le> (1 / 2) * ulp"
    using round_half_even_error [of "x / ulp"] up by (intro mult_right_mono) auto
  also have "\<dots> \<le> (1 / 2) * (16 / 2 ^ 52)"
    using ulp16 by simp
  also have "\<dots> = 1 / 2 ^ 49" by simp
  finally show ?thesis .
qed

lemma to_double_0: "to_double 0 = 0"
  by (simp add: to_double_def)

lemma weight_values:
  "to_double (30 / 100) = 5404319552844595 / 18014398509481984"
  "to_double (20 / 100) = 3602879701896397 / 18014398509481984"
  "to_double (15 / 100) = 5404319552844595 / 36028797018963968"
  by code_simp+

lemma to_double_bounds:
  assumes "- 16 \<le> x" "x \<le> 16"
  shows "x - 1 / 2 ^ 49 \<le> to_double x" "to_double x \<le> x + 1 / 2 ^ 49"
proof -
  from assms have "\<bar>x\<bar> \<le> 16" by simp
  from to_double_error [OF this] have e: "\<bar>to_double x - x\<bar> \<le> 1 / 2 ^ 49" .
  from e show "x - 1 / 2 ^ 49 \<le> to_double x" by linarith
  from e show "to_double x \<le> x + 1 / 2 ^ 49" by linarith
qed

text \<open>One term of the sum: the integer as a float, times the weight, rounded.\<close>

lemma term_bounds:
  assumes "0 \<le> s" "s \<le> 10" "0 \<le> w" "w \<le> 1"
  shows "of_int s * w - 1 / 2 ^ 48 \<le> to_double (to_double (of_int s) * w)"
    and "to_double (to_double (of_int s) * w) \<le> of_int s * w + 1 / 2 ^ 48"
proof -
  define c where "c = to_double (of_int s)"
  have s: "(0::rat) \<le> of_int s" "(of_int s :: rat) \<le> 10"
    using assms by simp_all
  have c: "of_int s - 1 / 2 ^ 49 \<le> c" "c \<le> of_int s + 1 / 2 ^ 49"
    unfolding c_def using s by (intro to_double_bounds; linarith)+
  have cw_lo: "(of_int s - 1 / 2 ^ 49) * w \<le> c * w"
    using c(1) assms(3) by (rule mult_right_mono)
  have cw_hi: "c * w \<le> (of_int s + 1 / 2 ^ 49) * w"
    using c(2) assms(3) by (rule mult_right_mono)
  have e: "(1 / 2 ^ 49) * w \<le> 1 / 2 ^ 49"
    using assms(3,4) by (simp add: field_simps)
  have sw: "0 \<le> of_int s * w" "of_int s * w \<le> 10"
    using s assms(3,4) by (simp_all add: mult_le_one mult_mono [of "of_int s" 10 w 1, simplified])
  have lo: "of_int s * w - 1 / 2 ^ 49 \<le> c * w"
    using cw_lo e by (simp add: algebra_simps)
  have hi: "c * w \<le> of_int s * w + 1 / 2 ^ 49"
    using cw_hi e by (simp add: algebra_simps)
  have r: "- 16 \<le> c * w" "c * w \<le> 16"
    using lo hi sw by simp_all
  from to_double_bounds [OF r] lo hi
  show "of_int s * w - 1 / 2 ^ 48 \<le> to_double (to_double (of_int s) * w)"
    and "to_double (to_double (of_int s) * w) \<le> of_int s * w + 1 / 2 ^ 48"
    unfolding c_def by simp_all
qed

text \<open>The float total of five integer scores stays close to the exact weighted sum.\<close>

lemma float_total_close:
  fixes s1 s2 s3 s4 s5 :: int
  assumes r: "0 \<le> s1" "s1 \<le> 10" "0 \<le> s2" "s2 \<le> 10" "0 \<le> s3" "s3 \<le> 10"
             "0 \<le> s4" "s4 \<le> 10" "0 \<le> s5" "s5 \<le> 10"
  defines "t1 \<equiv> to_double (to_double (of_int s1) * to_double (30 / 100))"
      and "t2 \<equiv> to_double (to_double (of_int s2) * to_double (20 / 100))"
      and "t3 \<equiv> to_double (to_double (of_int s3) * to_double (20 / 100))"
      and "t4 \<equiv> to_double (to_double (of_int s4) * to_double (15 / 100))"
      and "t5 \<equiv> to_double (to_double (of_int s5) * to_double (15 / 100))"
  defines "a1 \<equiv> to_double (to_double 0 + t1)"
  defines "a2 \<equiv> to_double (a1 + t2)"
  defines "a3 \<equiv> to_double (a2 + t3)"
  defines "a4 \<equiv> to_double (a3 + t4)"
  defines "a5 \<equiv> to_double (a4 + t5)"
  shows "of_int (30 * s1 + 20 * s2 + 20 * s3 + 15 * s4 + 15 * s5) / 100 - 1 / 2 ^ 40 \<le> a5"
    and "a5 \<le> of_int (30 * s1 + 20 * s2 + 20 * s3 + 15 * s4 + 15 * s5) / 100 + 1 / 2 ^ 40"
proof -
  have q: "(0::rat) \<le> of_int s1" "(of_int s1 :: rat) \<le> 10"
          "(0::rat) \<le> of_int s2" "(of_int s2 :: rat) \<le> 10"
          "(0::rat) \<le> of_int s3" "(of_int s3 :: rat) \<le> 10"
          "(0::rat) \<le> of_int s4" "(of_int s4 :: rat) \<le> 10"
          "(0::rat) \<le> of_int s5" "(of_int s5 :: rat) \<le> 10"
    using r by simp_all
  have w: "(0::rat) \<le> 5404319552844595 / 18014398509481984"
          "(5404319552844595 / 18014398509481984 :: rat) \<le> 1"
          "(0::rat) \<le> 3602879701896397 / 18014398509481984"
          "(3602879701896397 / 18014398509481984 :: rat) \<le> 1"
          "(0::rat) \<le> 5404319552844595 / 36028797018963968"
          "(5404319552844595 / 36028797018963968 :: rat) \<le> 1"
    by simp_all
  note b1 = term_bounds [OF r(1,2) w(1,2), folded weight_values, folded t1_def, unfolded weight_values]
  note b2 = term_bounds [OF r(3,4) w(3,4), folded weight_values, folded t2_def, unfolded weight_values]
  note b3 = term_bounds [OF r(5,6) w(3,4), folded weight_values, folded t3_def, unfolded weight_values]
  note b4 = term_bounds [OF r(7,8) w(5,6), folded weight_values, folded t4_def, unfolded weight_values]
  note b5 = term_bounds [OF r(9,10) w(5,6), folded weight_values, folded t5_def, unfolded weight_values]
  have c1: "t1 - 1 / 2 ^ 49 \<le> a1" "a1 \<le> t1 + 1 / 2 ^ 49"
    using to_double_bounds [of "t1"] b1 q unfolding a1_def by (simp_all add: to_double_0)
  have r2: "- 16 \<le> a1 + t2" "a1 + t2 \<le> 16"
    using b1 b2 c1 q by simp_all
  note c2 = to_double_bounds [OF r2, folded a2_def]
  have r3: "- 16 \<le> a2 + t3" "a2 + t3 \<le> 16"
    using b1 b2 b3 c1 c2 q by simp_all
  note c3 = to_double_bounds [OF r3, folded a3_def]
  have r4: "- 16 \<le> a3 + t4" "a3 + t4 \<le> 16"
    using b1 b2 b3 b4 c1 c2 c3 q by simp_all
  note c4 = to_double_bounds [OF r4, folded a4_def]
  have r5: "- 16 \<le> a4 + t5" "a4 + t5 \<le> 16"
    using b1 b2 b3 b4 b5 c1 c2 c3 c4 q by simp_all
  note c5 = to_double_bounds [OF r5, folded a5_def]
  define x1 x2 x3 x4 x5 :: rat where
    "x1 = of_int s1" and "x2 = of_int s2" and "x3 = of_int s3" and "x4 = of_int s4"
    and "x5 = of_int s5"
  note x = x1_def [symmetric] x2_def [symmetric] x3_def [symmetric] x4_def [symmetric]
           x5_def [symmetric]
  have n: "(of_int (30 * s1 + 20 * s2 + 20 * s3 + 15 * s4 + 15 * s5) :: rat) / 100
             = 3 * x1 / 10 + x2 / 5 + x3 / 5 + 3 * x4 / 20 + 3 * x5 / 20"
    by (simp add: x1_def x2_def x3_def x4_def x5_def add_divide_distrib)
  note q' = q [unfolded x]
  have d1: "30 * x1 / 100 - 1 / 2 ^ 47 \<le> t1" "t1 \<le> 30 * x1 / 100 + 1 / 2 ^ 47"
    using b1 [unfolded x] q'(1,2) by simp_all
  have d2: "20 * x2 / 100 - 1 / 2 ^ 47 \<le> t2" "t2 \<le> 20 * x2 / 100 + 1 / 2 ^ 47"
    using b2 [unfolded x] q'(3,4) by simp_all
  have d3: "20 * x3 / 100 - 1 / 2 ^ 47 \<le> t3" "t3 \<le> 20 * x3 / 100 + 1 / 2 ^ 47"
    using b3 [unfolded x] q'(5,6) by simp_all
  have d4: "15 * x4 / 100 - 1 / 2 ^ 47 \<le> t4" "t4 \<le> 15 * x4 / 100 + 1 / 2 ^ 47"
    using b4 [unfolded x] q'(7,8) by simp_all
  have d5: "15 * x5 / 100 - 1 / 2 ^ 47 \<le> t5" "t5 \<le> 15 * x5 / 100 + 1 / 2 ^ 47"
    using b5 [unfolded x] q'(9,10) by simp_all
  have s: "t1 + t2 + t3 + t4 + t5 - 1 / 2 ^ 46 \<le> a5" "a5 \<le> t1 + t2 + t3 + t4 + t5 + 1 / 2 ^ 46"
    using c1 c2 c3 c4 c5 by simp_all
  show "of_int (30 * s1 + 20 * s2 + 20 * s3 + 15 * s4 + 15 * s5) / 100 - 1 / 2 ^ 40 \<le> a5"
    unfolding n using d1(1) d2(1) d3(1) d4(1) d5(1) s(1) by (simp; linarith)
  show "a5 \<le> of_int (30 * s1 + 20 * s2 + 20 * s3 + 15 * s4 + 15 * s5) / 100 + 1 / 2 ^ 40"
    unfolding n using d1(2) d2(2) d3(2) d4(2) d5(2) s(2) by (simp; linarith)
qed

lemma add_scores_five:
  assumes "map_of scores k_strategic = Some (JDict e1)" "map_of e1 k_score = Some (JInt s1)"
      and "map_of scores k_industry = Some (JDict e2)" "map_of e2 k_score = Some (JInt s2)"
      and "map_of scores k_timeliness = Some (JDict e3)" "map_of e3 k_score = Some (JInt s3)"
      and "map_of scores k_business = Some (JDict e4)" "map_of e4 k_score = Some (JInt s4)"
      and "map_of scores k_actionability = Some (JDict e5)" "map_of e5 k_score = Some (JInt s5)"
  shows "add_scores scores weights (PyInt 0) = Inr (PyFloat
           (to_double (to_double (to_double (to_double (to_double (to_double 0 +
              to_double (to_double (of_int s1) * to_double (30 / 100))) +
              to_double (to_double (of_int s2) * to_double (20 / 100))) +
              to_double (to_double (of_int s3) * to_double (20 / 100))) +
              to_double (to_double (of_int s4) * to_double (15 / 100))) +
              to_double (to_double (of_int s5) * to_double (15 / 100)))))"
  by (simp add: weights_def assms)

lemma tie_or_not:
  fixes s1 s2 s3 s4 s5 :: int
  assumes "n = 30 * s1 + 20 * s2 + 20 * s3 + 15 * s4 + 15 * s5" "\<not> 10 dvd n"
  shows "n = 10 * (n div 10) + 5"
  using assms by presburger

lemma py_round1_cases:
  assumes lo: "of_int n / 100 - u \<le> a" and hi: "a \<le> of_int n / 100 + u"
      and u: "u < 1 / 100"
  shows "10 dvd n \<Longrightarrow> py_round1 a = to_double (of_int n / 100)"
    and "n = 10 * m + 5 \<Longrightarrow>
           py_round1 a = to_double (of_int (n - 5) / 100) \<or>
           py_round1 a = to_double (of_int (n + 5) / 100)"
proof -
  assume "10 dvd n"
  then obtain k where k: "n = 10 * k" by (auto simp: dvd_def)
  have nk: "(of_int n :: rat) / 100 = of_int k / 10"
    by (simp add: k)
  from lo hi u have "of_int k - 1 / 2 < a * 10" "a * 10 < of_int k + 1 / 2"
    unfolding nk by linarith+
  then have "\<bar>a * 10 - of_int k\<bar> < 1 / 2"
    unfolding abs_less_iff by linarith
  then have "round_half_even (a * 10) = k"
    by (rule round_half_even_near)
  then show "py_round1 a = to_double (of_int n / 100)"
    unfolding py_round1_def nk by simp
next
  assume m: "n = 10 * m + 5"
  have nm: "(of_int n :: rat) / 100 = of_int m / 10 + 1 / 20"
    by (simp add: m add_divide_distrib)
  have a1: "(of_int (n - 5) :: rat) / 100 = of_int m / 10"
    by (simp add: m)
  have a2: "(of_int (n + 5) :: rat) / 100 = of_int (m + 1) / 10"
    by (simp add: m add_divide_distrib)
  from lo hi u have "of_int m < a * 10" "a * 10 < of_int m + 1"
    unfolding nm by linarith+
  then have "round_half_even (a * 10) = m \<or> round_half_even (a * 10) = m + 1"
    by (rule round_half_even_between)
  then show "py_round1 a = to_double (of_int (n - 5) / 100) \<or>
             py_round1 a = to_double (of_int (n + 5) / 100)"
    unfolding py_round1_def a1 a2 by auto
qed

lemma closed_values:
  "to_double (13 / 2) = 13 / 2"
  "to_double 10 = 10"
  "to_double (3 / 10) = 5404319552844595 / 18014398509481984"
  "to_double (2 / 5) = 3602879701896397 / 9007199254740992"
  by code_simp+



lemma composite_score_five:
  fixes s1 s2 s3 s4 s5 n :: int
  assumes "map_of analysis k_scores = Some (JDict scores)"
      and "map_of scores k_strategic = Some (JDict e1)" "map_of e1 k_score = Some (JInt s1)"
      and "map_of scores k_industry = Some (JDict e2)" "map_of e2 k_score = Some (JInt s2)"
      and "map_of scores k_timeliness = Some (JDict e3)" "map_of e3 k_score = Some (JInt s3)"
      and "map_of scores k_business = Some (JDict e4)" "map_of e4 k_score = Some (JInt s4)"
      and "map_of scores k_actionability = Some (JDict e5)" "map_of e5 k_score = Some (JInt s5)"
      and "0 \<le> s1" "s1 \<le> 10" "0 \<le> s2" "s2 \<le> 10" "0 \<le> s3" "s3 \<le> 10"
          "0 \<le> s4" "s4 \<le> 10" "0 \<le> s5" "s5 \<le> 10"
      and "n = 30 * s1 + 20 * s2 + 20 * s3 + 15 * s4 + 15 * s5"
  shows "\<exists>p. composite_score analysis = Inr p \<and>
              (10 dvd n \<longrightarrow> p = to_double (of_int n / 100)) \<and>
              (\<not> 10 dvd n \<longrightarrow> p = to_double (of_int (n - 5) / 100) \<or>
                                 p = to_double (of_int (n + 5) / 100))"
proof -
  define a where "a =
     to_double (to_double (to_double (to_double (to_double (to_double 0 +
              to_double (to_double (of_int s1) * to_double (30 / 100))) +
              to_double (to_double (of_int s2) * to_double (20 / 100))) +
              to_double (to_double (of_int s3) * to_double (20 / 100))) +
              to_double (to_double (of_int s4) * to_double (15 / 100))) +
              to_double (to_double (of_int s5) * to_double (15 / 100)))"
  have "add_scores scores weights (PyInt 0) = Inr (PyFloat a)"
    unfolding a_def by (rule add_scores_five [OF assms(2-11)])
  then have p: "composite_score analysis = Inr (py_round1 a)"
    by (simp add: composite_score_def assms(1))
  note close = float_total_close [OF assms(12-21), folded a_def, folded assms(22)]
  have u: "(1::rat) / 2 ^ 40 < 1 / 100" by simp
  have 1: "10 dvd n \<longrightarrow> py_round1 a = to_double (of_int n / 100)"
    using py_round1_cases(1) [OF close u] by blast
  have 2: "\<not> 10 dvd n \<longrightarrow> py_round1 a = to_double (of_int (n - 5) / 100) \<or>
                            py_round1 a = to_double (of_int (n + 5) / 100)"
    using py_round1_cases(2) [OF close u] tie_or_not [OF assms(22)] by blast
  from p 1 2 show ?thesis by blast
qed

lemma sample_lookups:
  "map_of (sample_analysis s1 s2 s3 s4 s5) k_scores =
     Some (JDict [(k_strategic, score_entry s1), (k_industry, score_entry s2),
                  (k_timeliness, score_entry s3), (k_business, score_entry s4),
                  (k_actionability, score_entry s5)])"
  "map_of [(k_strategic, score_entry s1), (k_industry, score_entry s2),
           (k_timeliness, score_entry s3), (k_business, score_entry s4),
           (k_actionability, score_entry s5)] k_strategic
     = Some (JDict [(k_score, JInt s1), (k_reason, JStr [])])"
  "map_of [(k_strategic, score_entry s1), (k_industry, score_entry s2),
           (k_timeliness, score_entry s3), (k_business, score_entry s4),
           (k_actionability, score_entry s5)] k_industry
     = Some (JDict [(k_score, JInt s2), (k_reason, JStr [])])"
  "map_of [(k_strategic, score_entry s1), (k_industry, score_entry s2),
           (k_timeliness, score_entry s3), (k_business, score_entry s4),
           (k_actionability, score_entry s5)] k_timeliness
     = Some (JDict [(k_score, JInt s3), (k_reason, JStr [])])"
  "map_of [(k_strategic, score_entry s1), (k_industry, score_entry s2),
           (k_timeliness, score_entry s3), (k_business, score_entry s4),
           (k_actionability, score_entry s5)] k_business
     = Some (JDict [(k_score, JInt s4), (k_reason, JStr [])])"
  "map_of [(k_strategic, score_entry s1), (k_industry, score_entry s2),
           (k_timeliness, score_entry s3), (k_business, score_entry s4),
           (k_actionability, score_entry s5)] k_actionability
     = Some (JDict [(k_score, JInt s5), (k_reason, JStr [])])"
  "map_of [(k_score, JInt s), (k_reason, JStr [])] k_score = Some (JInt s :: rat json)"
  by (simp_all add: sample_analysis_def score_entry_def k_scores_def k_topic_def k_category_def
        k_summary_def k_new_title_def k_strategic_def k_industry_def k_timeliness_def
        k_business_def k_actionability_def k_score_def k_reason_def)



lemma sample_score: "composite_score (sample_analysis 8 6 10 4 2) = Inr (13 / 2)"
proof -
  have "\<exists>p. composite_score (sample_analysis 8 6 10 4 2) = Inr p \<and>
              (10 dvd (650::int) \<longrightarrow> p = to_double (of_int 650 / 100)) \<and>
              (\<not> 10 dvd (650::int) \<longrightarrow> p = to_double (of_int (650 - 5) / 100) \<or>
                                 p = to_double (of_int (650 + 5) / 100))"
    by (rule composite_score_five [OF sample_lookups(1) sample_lookups(2) sample_lookups(7)
          sample_lookups(3) sample_lookups(7) sample_lookups(4) sample_lookups(7)
          sample_lookups(5) sample_lookups(7) sample_lookups(6) sample_lookups(7)]) simp_all
  then show ?thesis
    by (auto simp: closed_values(1))
qed




text \<open>
  \<open>ai_process_single_intelligence_with_date_extraction\<close> computes the same score but
  never writes it: whatever the analysis, it ends in an exception.
\<close>

lemma with_date_extraction_persists_nothing:
  "ai_process_single_intelligence_with_date_extraction analysis \<noteq> Inr p"
  by (simp add: ai_process_single_intelligence_with_date_extraction_def split: sum.splits)

lemma with_date_extraction_sample:
  "ai_process_single_intelligence_with_date_extraction (sample_analysis 8 6 10 4 2)
     = Inl UnboundLocalError"
  by (simp add: ai_process_single_intelligence_with_date_extraction_def sample_score)
end
